theory Spec2Isabelle
  imports Main "HOL-Library.Word"
begin

unbundle bit_operations_syntax

section \<open>The TCP session registry of \<^verbatim>\<open>Src/Modules/tcp.c\<close>\<close>

text \<open>
  The module keeps a singly linked list of heap-allocated \<^verbatim>\<open>struct tcp_session\<close>
  records, reached from the two globals \<^verbatim>\<open>ztcp_head\<close> and \<^verbatim>\<open>ztcp_tail\<close>. The properties
  below depend on which record a pointer refers to and on whether that record is still
  allocated, so the embedding keeps an explicit store: addresses are natural numbers,
  \<open>0\<close> is \<^verbatim>\<open>NULL\<close>, and the heap maps every allocated address to its record.
  Dereferencing \<^verbatim>\<open>NULL\<close>, or an address that is not (or no longer) allocated, is
  undefined behaviour in C; the embedding makes it a \<open>fault\<close> value. So is a copy that
  reads or writes past the end of its object (\<open>Overrun\<close>).
\<close>

subsection \<open>Data\<close>

type_synonym addr = nat

datatype fault = NullDeref | BadPointer addr | Overrun

type_synonym byte = "8 word"

text \<open>
  \<^verbatim>\<open>union tcp_sockaddr\<close> is declared in \<^verbatim>\<open>tcp.h\<close>; the functions below touch its IPv4
  view only (\<^verbatim>\<open>SUPPORT_IPV6\<close> is taken as not defined), the 16 bytes of a
  \<^verbatim>\<open>struct sockaddr_in\<close>: the 16-bit family tag, the 16-bit port, the 4 address bytes
  and the 8 padding bytes \<^verbatim>\<open>sin_zero\<close> that end the object.
\<close>

record tcp_sockaddr =
  sa_family :: "16 word"
  sin_port :: "16 word"
  sin_addr :: "byte list"
  sin_zero :: "byte list"

text \<open>The all-zero value \<^verbatim>\<open>zcalloc\<close> leaves in a fresh record.\<close>

definition zero_sockaddr :: tcp_sockaddr where
  "zero_sockaddr = \<lparr>sa_family = 0, sin_port = 0, sin_addr = [0, 0, 0, 0],
     sin_zero = [0, 0, 0, 0, 0, 0, 0, 0]\<rparr>"

text \<open>\<^verbatim>\<open>struct tcp_session\<close>; the field \<^verbatim>\<open>next\<close> is called \<open>next_ptr\<close> here.\<close>

record tcp_session =
  fd :: int
  peer :: tcp_sockaddr
  flags :: int
  next_ptr :: addr

text \<open>What the module makes visible: diagnostics, lines printed, system calls.\<close>

datatype event =
    Zwarn string int
  | Zwarnnam string string "string option" int
  | ListedLine string int int string
  | OpenedLine string int int
  | SysSocket int int int
  | SysClose int
  | SysConnect int tcp_sockaddr
  | SysSetsockopt int

text \<open>
  The module's state: the heap of session records, the two globals, and the part of the
  process the module acts on (the table of open descriptors, \<^verbatim>\<open>errno\<close>, the shell's
  \<^verbatim>\<open>errflag\<close>), with the trace of events so far.
\<close>

record tcp_state =
  heap :: "addr \<Rightarrow> tcp_session option"
  ztcp_head :: addr
  ztcp_tail :: addr
  open_fds :: "int set"
  errno :: int
  errflag :: bool
  trace :: "event list"

text \<open>\<^verbatim>\<open>Tcp_session ztcp_head = NULL, ztcp_tail = NULL;\<close>\<close>

definition init_state :: tcp_state where
  "init_state = \<lparr>heap = (\<lambda>_. None), ztcp_head = 0, ztcp_tail = 0, open_fds = {},
     errno = 0, errflag = False, trace = []\<rparr>"

definition deref :: "tcp_state \<Rightarrow> addr \<Rightarrow> fault + tcp_session" where
  "deref s p =
     (if p = 0 then Inl NullDeref
      else case heap s p of None \<Rightarrow> Inl (BadPointer p) | Some c \<Rightarrow> Inr c)"

text \<open>\<^verbatim>\<open>free(p)\<close>: nothing for \<^verbatim>\<open>NULL\<close>, a fault for a pointer that is not allocated.\<close>

definition free_ptr :: "addr \<Rightarrow> tcp_state \<Rightarrow> fault + tcp_state" where
  "free_ptr p s =
     (if p = 0 then Inr s
      else case heap s p of
             None \<Rightarrow> Inl (BadPointer p)
           | Some c \<Rightarrow> Inr (s\<lparr>heap := (heap s)(p := None)\<rparr>))"

subsection \<open>The registry operations\<close>

definition zts_head :: "tcp_state \<Rightarrow> addr" where
  "zts_head s = ztcp_head s"

definition zts_next :: "addr \<Rightarrow> tcp_state \<Rightarrow> fault + addr" where
  "zts_next cur s =
     (if cur \<noteq> 0 then (case deref s cur of Inl e \<Rightarrow> Inl e | Inr c \<Rightarrow> Inr (next_ptr c))
      else Inr 0)"

text \<open>
  \<^verbatim>\<open>zts_alloc\<close>. The first argument is the pointer \<^verbatim>\<open>zcalloc\<close> returned: \<open>0\<close> when
  the allocation failed, otherwise the address of the new zeroed record.
\<close>

definition zts_alloc :: "addr \<Rightarrow> int \<Rightarrow> tcp_state \<Rightarrow> fault + (addr \<times> tcp_state)" where
  "zts_alloc sess ztflags s =
     (if sess = 0 then Inr (0, s)
      else
        let s1 = s\<lparr>heap := (heap s)(sess \<mapsto>
                   \<lparr>fd = - 1, peer = zero_sockaddr, flags = ztflags, next_ptr = 0\<rparr>)\<rparr>
        in if zts_head s1 = 0 then Inr (sess, s1\<lparr>ztcp_head := sess, ztcp_tail := sess\<rparr>)
           else (case deref s1 (ztcp_tail s1) of
                   Inl e \<Rightarrow> Inl e
                 | Inr t \<Rightarrow>
                     Inr (sess, s1\<lparr>heap := (heap s1)(ztcp_tail s1 \<mapsto> t\<lparr>next_ptr := sess\<rparr>)\<rparr>)))"

text \<open>
  The scan of \<^verbatim>\<open>zts_delete\<close>:
  \<^verbatim>\<open>while((tsess->next != sess) && (tsess->next)) tsess = zts_next(tsess);\<close>
  It returns the node it stops at. On a cyclic chain it does not return.
\<close>

partial_function (option) zts_delete_scan ::
  "tcp_state \<Rightarrow> addr \<Rightarrow> addr \<Rightarrow> (fault + addr) option" where
  "zts_delete_scan s sess tsess =
     (case deref s tsess of
        Inl e \<Rightarrow> Some (Inl e)
      | Inr c \<Rightarrow>
          if next_ptr c \<noteq> sess \<and> next_ptr c \<noteq> 0 then zts_delete_scan s sess (next_ptr c)
          else Some (Inr tsess))"

text \<open>
  The part of \<^verbatim>\<open>zts_delete\<close> after the scan stopped at \<open>tsess\<close>:
  \<^verbatim>\<open>if(!tsess->next) return 1; tsess->next = tsess->next->next; free(tsess->next); return 0;\<close>
  The pointer given to \<^verbatim>\<open>free\<close> is read after the link has been rewritten.
\<close>

definition zts_delete_unlink :: "addr \<Rightarrow> tcp_state \<Rightarrow> fault + (int \<times> tcp_state)" where
  "zts_delete_unlink tsess s =
     (case deref s tsess of
        Inl e \<Rightarrow> Inl e
      | Inr tc \<Rightarrow>
          if next_ptr tc = 0 then Inr (1, s)
          else (case deref s (next_ptr tc) of
                  Inl e \<Rightarrow> Inl e
                | Inr nc \<Rightarrow>
                    let s1 = s\<lparr>heap := (heap s)(tsess \<mapsto> tc\<lparr>next_ptr := next_ptr nc\<rparr>)\<rparr>
                    in (case deref s1 tsess of
                          Inl e \<Rightarrow> Inl e
                        | Inr tc1 \<Rightarrow>
                            (case free_ptr (next_ptr tc1) s1 of
                               Inl e \<Rightarrow> Inl e
                             | Inr s2 \<Rightarrow> Inr (0, s2)))))"

definition zts_delete :: "addr \<Rightarrow> tcp_state \<Rightarrow> (fault + (int \<times> tcp_state)) option" where
  "zts_delete sess s =
     (let tsess = zts_head s
      in if tsess = sess then
           (case deref s sess of
              Inl e \<Rightarrow> Some (Inl e)
            | Inr c \<Rightarrow>
                (case free_ptr sess (s\<lparr>ztcp_head := next_ptr c\<rparr>) of
                   Inl e \<Rightarrow> Some (Inl e)
                 | Inr s1 \<Rightarrow> Some (Inr (0, s1))))
         else
           (case zts_delete_scan s sess tsess of
              None \<Rightarrow> None
            | Some (Inl e) \<Rightarrow> Some (Inl e)
            | Some (Inr t) \<Rightarrow> Some (zts_delete_unlink t s)))"

text \<open>
  \<^verbatim>\<open>zts_byfd\<close>: a \<^verbatim>\<open>do ... while\<close> loop, so the node is read before it is tested
  against \<^verbatim>\<open>NULL\<close>.
\<close>

partial_function (option) zts_byfd_loop ::
  "tcp_state \<Rightarrow> int \<Rightarrow> addr \<Rightarrow> (fault + addr) option" where
  "zts_byfd_loop s d tsess =
     (case deref s tsess of
        Inl e \<Rightarrow> Some (Inl e)
      | Inr c \<Rightarrow>
          if fd c = d then Some (Inr tsess)
          else if next_ptr c \<noteq> 0 then zts_byfd_loop s d (next_ptr c)
          else Some (Inr 0))"

definition zts_byfd :: "int \<Rightarrow> tcp_state \<Rightarrow> (fault + addr) option" where
  "zts_byfd d s = zts_byfd_loop s d (zts_head s)"

text \<open>
  Forward traversal from \<^verbatim>\<open>zts_head()\<close> by \<^verbatim>\<open>zts_next\<close>, as in
  \<^verbatim>\<open>for(sess = zts_head(); sess != NULL; sess = zts_next(sess))\<close>: the sessions visited,
  in order.
\<close>

partial_function (option) traverse_from ::
  "tcp_state \<Rightarrow> addr \<Rightarrow> addr list \<Rightarrow> (fault + addr list) option" where
  "traverse_from s sess visited =
     (if sess = 0 then Some (Inr visited)
      else (case zts_next sess s of
              Inl e \<Rightarrow> Some (Inl e)
            | Inr n \<Rightarrow> traverse_from s n (visited @ [sess])))"

definition traverse :: "tcp_state \<Rightarrow> (fault + addr list) option" where
  "traverse s = traverse_from s (zts_head s) []"

subsection \<open>Closing a session\<close>

text \<open>
  \<^verbatim>\<open>close(2)\<close> on the descriptor table: closing an open descriptor succeeds and
  removes it; closing anything else fails with \<^verbatim>\<open>EBADF\<close>.
\<close>

definition EBADF :: int where
  "EBADF = 9"

definition os_close :: "int \<Rightarrow> tcp_state \<Rightarrow> int \<times> tcp_state" where
  "os_close d s =
     (if d \<in> open_fds s
      then (0, s\<lparr>open_fds := open_fds s - {d}, trace := trace s @ [SysClose d]\<rparr>)
      else (- 1, s\<lparr>errno := EBADF, trace := trace s @ [SysClose d]\<rparr>))"

definition tcp_close :: "addr \<Rightarrow> tcp_state \<Rightarrow> fault + (int \<times> tcp_state)" where
  "tcp_close sess s =
     (case deref s sess of
        Inl e \<Rightarrow> Inl e
      | Inr c \<Rightarrow>
          if fd c \<noteq> - 1 then
            (case os_close (fd c) s of
               (err, s1) \<Rightarrow>
                 if err \<noteq> 0
                 then Inr (- 1, s1\<lparr>trace := trace s1 @
                        [Zwarn ''connection close failed: %e'' (errno s1)]\<rparr>)
                 else Inr (0, s1))
          else Inr (- 1, s))"

text \<open>
  \<^verbatim>\<open>tcp_cleanup\<close>:
  \<^verbatim>\<open>for(sess = zts_head(); sess != NULL; sess = zts_next(prev))
     { prev = sess; tcp_close(sess); zts_delete(sess); }\<close>
\<close>

partial_function (option) tcp_cleanup_loop ::
  "tcp_state \<Rightarrow> addr \<Rightarrow> (fault + tcp_state) option" where
  "tcp_cleanup_loop s sess =
     (if sess = 0 then Some (Inr s)
      else
        (let prev = sess
         in (case tcp_close sess s of
               Inl e \<Rightarrow> Some (Inl e)
             | Inr (r1, s1) \<Rightarrow>
                 (case zts_delete sess s1 of
                    None \<Rightarrow> None
                  | Some (Inl e) \<Rightarrow> Some (Inl e)
                  | Some (Inr (r2, s2)) \<Rightarrow>
                      (case zts_next prev s2 of
                         Inl e \<Rightarrow> Some (Inl e)
                       | Inr n \<Rightarrow> tcp_cleanup_loop s2 n)))))"

definition tcp_cleanup :: "tcp_state \<Rightarrow> (fault + tcp_state) option" where
  "tcp_cleanup s = tcp_cleanup_loop s (zts_head s)"

subsection \<open>Opening a socket and connecting\<close>

text \<open>
  \<^verbatim>\<open>socket(2)\<close>: the pair is what the call returned and the \<^verbatim>\<open>errno\<close> it set on
  failure. A descriptor that is returned is open from then on.
\<close>

definition os_socket :: "int \<times> int \<Rightarrow> int \<Rightarrow> int \<Rightarrow> int \<Rightarrow> tcp_state \<Rightarrow> int \<times> tcp_state" where
  "os_socket res domain type protocol s =
     (case res of
        (r, e) \<Rightarrow>
          (r, s\<lparr>open_fds := (if 0 \<le> r then insert r (open_fds s) else open_fds s),
                errno := (if r < 0 then e else errno s),
                trace := trace s @ [SysSocket domain type protocol]\<rparr>))"

definition tcp_socket ::
  "addr \<Rightarrow> int \<times> int \<Rightarrow> int \<Rightarrow> int \<Rightarrow> int \<Rightarrow> int \<Rightarrow> tcp_state \<Rightarrow> fault + (addr \<times> tcp_state)" where
  "tcp_socket zc res domain type protocol ztflags s =
     (case zts_alloc zc ztflags s of
        Inl e \<Rightarrow> Inl e
      | Inr (sess, s1) \<Rightarrow>
          if sess = 0 then Inr (0, s1)
          else (case os_socket res domain type protocol s1 of
                  (r, s2) \<Rightarrow>
                    (case deref s2 sess of
                       Inl e \<Rightarrow> Inl e
                     | Inr c \<Rightarrow> Inr (sess, s2\<lparr>heap := (heap s2)(sess \<mapsto> c\<lparr>fd := r\<rparr>)\<rparr>))))"

text \<open>\<^verbatim>\<open>struct hostent\<close>, as far as the module reads it.\<close>

record hostent =
  h_name :: string
  h_addrtype :: int
  h_length :: int
  h_addr_list :: "byte list list"

text \<open>
  \<^verbatim>\<open>memcpy(dst, src, n)\<close>, where \<open>dst\<close> is the bytes from the destination pointer to the
  end of its object and \<open>src\<close> the bytes of the source: the first \<open>n\<close> bytes of \<open>dst\<close>
  are replaced and the length of \<open>dst\<close> stays. The count is an \<^verbatim>\<open>int\<close> converted to
  \<^verbatim>\<open>size_t\<close>, so a negative one is huge. A count beyond either object has no result.
\<close>

definition memcpy :: "byte list \<Rightarrow> byte list \<Rightarrow> int \<Rightarrow> byte list option" where
  "memcpy dst src n =
     (if 0 \<le> n \<and> nat n \<le> length dst \<and> nat n \<le> length src
      then Some (take (nat n) src @ drop (nat n) dst)
      else None)"

text \<open>
  One answer of \<^verbatim>\<open>connect(2)\<close>: the value returned, the \<^verbatim>\<open>errno\<close> it set when it
  failed, and whether a signal handler set the shell's \<^verbatim>\<open>errflag\<close> while the call was
  blocked.
\<close>

record connect_outcome =
  c_ret :: int
  c_errno :: int
  c_errflag :: bool

definition os_connect :: "connect_outcome \<Rightarrow> int \<Rightarrow> tcp_sockaddr \<Rightarrow> tcp_state \<Rightarrow> int \<times> tcp_state" where
  "os_connect oc d sa s =
     (c_ret oc,
      s\<lparr>errno := (if c_ret oc \<noteq> 0 then c_errno oc else errno s),
        errflag := (errflag s \<or> c_errflag oc),
        trace := trace s @ [SysConnect d sa]\<rparr>)"

text \<open>
  \<^verbatim>\<open>tcp_connect\<close>: the peer address is written into the session first, then
  \<^verbatim>\<open>connect(2)\<close> is called. The first argument is the answer of that call, \<open>None\<close>
  when the call never returns. \<^verbatim>\<open>memcpy(&(sess->peer.in.sin_addr), addrp, h_length)\<close>
  writes from the address field on, so more than 4 bytes run into \<^verbatim>\<open>sin_zero\<close> and more
  than 12 leave the object. The \<^verbatim>\<open>int\<close> values \<^verbatim>\<open>d_port\<close> and \<^verbatim>\<open>h_addrtype\<close> are
  converted to the 16-bit fields they are stored in.
\<close>

definition tcp_connect ::
  "connect_outcome option \<Rightarrow> addr \<Rightarrow> byte list \<Rightarrow> hostent \<Rightarrow> int \<Rightarrow> tcp_state
     \<Rightarrow> (fault + (int \<times> tcp_state)) option" where
  "tcp_connect ans sess addrp zhost d_port s =
     (case deref s sess of
        Inl e \<Rightarrow> Some (Inl e)
      | Inr c \<Rightarrow>
          (case memcpy (sin_addr (peer c) @ sin_zero (peer c)) addrp (h_length zhost) of
             None \<Rightarrow> Some (Inl Overrun)
           | Some bytes \<Rightarrow>
               let pr = (peer c)\<lparr>sin_addr := take (length (sin_addr (peer c))) bytes,
                                sin_zero := drop (length (sin_addr (peer c))) bytes,
                                sin_port := word_of_int d_port,
                                sa_family := word_of_int (h_addrtype zhost)\<rparr>;
                   s1 = s\<lparr>heap := (heap s)(sess \<mapsto> c\<lparr>peer := pr\<rparr>)\<rparr>
               in (case ans of
                     None \<Rightarrow> None
                   | Some oc \<Rightarrow> Some (Inr (os_connect oc (fd c) pr s1)))))"

text \<open>Values of the system headers (Linux); the properties below use them by name only.\<close>

definition EINTR :: int where
  "EINTR = 4"

definition PF_INET :: int where
  "PF_INET = 2"

definition SOCK_STREAM :: int where
  "SOCK_STREAM = 1"

text \<open>
  \<^verbatim>\<open>htons\<close> and \<^verbatim>\<open>ntohs\<close> on a little-endian host: the argument is converted to 16
  bits and its two bytes are swapped; the result is a value from 0 to 65535.
\<close>

definition htons :: "int \<Rightarrow> int" where
  "htons p = (p mod 256) * 256 + (p div 256) mod 256"

definition ntohs :: "int \<Rightarrow> int" where
  "ntohs p = htons p"

text \<open>\<^verbatim>\<open>atoi\<close>: leading white space, an optional sign, then decimal digits.\<close>

definition isspace :: "char \<Rightarrow> bool" where
  "isspace c = (of_char c \<in> {32, 9, 10, 11, 12, 13 :: nat})"

definition isdigit :: "char \<Rightarrow> bool" where
  "isdigit c = (48 \<le> (of_char c :: nat) \<and> (of_char c :: nat) \<le> 57)"

fun atoi_digits :: "int \<Rightarrow> string \<Rightarrow> int" where
  "atoi_digits acc [] = acc"
| "atoi_digits acc (c # cs) =
     (if isdigit c then atoi_digits (acc * 10 + (of_char c - 48)) cs else acc)"

definition atoi :: "string \<Rightarrow> int" where
  "atoi str =
     (case dropWhile isspace str of
        [] \<Rightarrow> 0
      | c # cs \<Rightarrow>
          if c = CHR ''-'' then - atoi_digits 0 cs
          else if c = CHR ''+'' then atoi_digits 0 cs
          else atoi_digits 0 (c # cs))"

subsection \<open>The builtin \<^verbatim>\<open>ztcp\<close>\<close>

text \<open>
  What \<^verbatim>\<open>bin_ztcp\<close> takes from outside the file: the flag bit \<^verbatim>\<open>ZTCP_ZFTP\<close> of
  \<^verbatim>\<open>tcp.h\<close>, whether the system headers define \<^verbatim>\<open>SO_OOBINLINE\<close>, and the answers of
  the library and the system during one run of the command: the pointer \<^verbatim>\<open>zcalloc\<close>
  returns, the result of \<^verbatim>\<open>socket\<close>, the resolver, the answers of the successive
  calls of \<^verbatim>\<open>connect\<close>, and the reverse lookup used by the listing.
\<close>

record environment =
  ZTCP_ZFTP :: int
  have_SO_OOBINLINE :: bool
  zcalloc_result :: addr
  socket_result :: "int \<times> int"
  getipnodebyname :: "string \<Rightarrow> hostent option"
  connect_results :: "connect_outcome list"
  gethostbyaddr :: "byte list \<Rightarrow> string option"

definition emit :: "event \<Rightarrow> tcp_state \<Rightarrow> tcp_state" where
  "emit e s = s\<lparr>trace := trace s @ [e]\<rparr>"

text \<open>
  The inner loop of the open command:
  \<^verbatim>\<open>do { err = tcp_connect(sess, *addrp, zthost, htons(destport)); }
     while (err && errno == EINTR && !errflag);\<close>
  It consumes the answers of \<^verbatim>\<open>connect\<close> in order and returns the ones left over;
  when the answers run out, the call of \<^verbatim>\<open>connect\<close> does not return.
\<close>

fun connect_retry ::
  "connect_outcome list \<Rightarrow> addr \<Rightarrow> byte list \<Rightarrow> hostent \<Rightarrow> int \<Rightarrow> tcp_state
     \<Rightarrow> (fault + (int \<times> connect_outcome list \<times> tcp_state)) option" where
  "connect_retry [] sess addrp zthost d_port s =
     (case tcp_connect None sess addrp zthost d_port s of
        Some (Inl e) \<Rightarrow> Some (Inl e)
      | _ \<Rightarrow> None)"
| "connect_retry (oc # ocs) sess addrp zthost d_port s =
     (case tcp_connect (Some oc) sess addrp zthost d_port s of
        None \<Rightarrow> None
      | Some (Inl e) \<Rightarrow> Some (Inl e)
      | Some (Inr (err, s1)) \<Rightarrow>
          if err \<noteq> 0 \<and> errno s1 = EINTR \<and> \<not> errflag s1
          then connect_retry ocs sess addrp zthost d_port s1
          else Some (Inr (err, ocs, s1)))"

text \<open>
  The outer loop:
  \<^verbatim>\<open>for (addrp = zthost->h_addr_list; err && *addrp; addrp++)
     { if(zthost->h_length != 4) zwarnnam(nam, "address length mismatch", NULL, 0); do ... }\<close>
\<close>

fun connect_candidates ::
  "string \<Rightarrow> int \<Rightarrow> byte list list \<Rightarrow> connect_outcome list \<Rightarrow> addr \<Rightarrow> hostent \<Rightarrow> int
     \<Rightarrow> tcp_state \<Rightarrow> (fault + (int \<times> connect_outcome list \<times> tcp_state)) option" where
  "connect_candidates nam err [] ocs sess zthost d_port s = Some (Inr (err, ocs, s))"
| "connect_candidates nam err (addrp # addrs) ocs sess zthost d_port s =
     (if err \<noteq> 0 then
        (let s0 = (if h_length zthost \<noteq> 4
                   then emit (Zwarnnam nam ''address length mismatch'' None 0) s else s)
         in (case connect_retry ocs sess addrp zthost d_port s0 of
               None \<Rightarrow> None
             | Some (Inl e) \<Rightarrow> Some (Inl e)
             | Some (Inr (err1, ocs1, s1)) \<Rightarrow>
                 connect_candidates nam err1 addrs ocs1 sess zthost d_port s1))
      else Some (Inr (err, ocs, s)))"

text \<open>\<^verbatim>\<open>setsockopt\<close>: the result is ignored; on a descriptor that is not open it sets \<^verbatim>\<open>errno\<close>.\<close>

definition os_setsockopt :: "int \<Rightarrow> tcp_state \<Rightarrow> tcp_state" where
  "os_setsockopt d s =
     (if d \<in> open_fds s then emit (SysSetsockopt d) s
      else emit (SysSetsockopt d) (s\<lparr>errno := EBADF\<rparr>))"

text \<open>The listing loop of \<^verbatim>\<open>bin_ztcp\<close> (no \<^verbatim>\<open>-c\<close>, no arguments).\<close>

partial_function (option) ztcp_list_loop ::
  "environment \<Rightarrow> tcp_state \<Rightarrow> addr \<Rightarrow> (fault + tcp_state) option" where
  "ztcp_list_loop env s sess =
     (if sess = 0 then Some (Inr s)
      else (case deref s sess of
              Inl e \<Rightarrow> Some (Inl e)
            | Inr c \<Rightarrow>
                let suffix = (if flags c AND ZTCP_ZFTP env \<noteq> 0 then '' ZFTP'' else []);
                    s1 = (if fd c \<noteq> - 1 then
                            (case gethostbyaddr env (sin_addr (peer c)) of
                               Some name \<Rightarrow>
                                 emit (ListedLine name (ntohs (uint (sin_port (peer c)))) (fd c)
                                   suffix) s
                             | None \<Rightarrow>
                                 emit (ListedLine ''UNKNOWN'' (uint (sin_port (peer c))) (fd c)
                                   suffix) s)
                          else s)
                in (case zts_next sess s1 of
                      Inl e \<Rightarrow> Some (Inl e)
                    | Inr n \<Rightarrow> ztcp_list_loop env s1 n)))"

text \<open>The branch \<^verbatim>\<open>ops['c']\<close> with a descriptor argument.\<close>

definition ztcp_close_fd ::
  "environment \<Rightarrow> string \<Rightarrow> bool \<Rightarrow> int \<Rightarrow> tcp_state \<Rightarrow> (fault + (int \<times> tcp_state)) option" where
  "ztcp_close_fd env nam force targetfd s =
     (case zts_byfd targetfd s of
        None \<Rightarrow> None
      | Some (Inl e) \<Rightarrow> Some (Inl e)
      | Some (Inr sess) \<Rightarrow>
          if sess \<noteq> 0 then
            (case deref s sess of
               Inl e \<Rightarrow> Some (Inl e)
             | Inr c \<Rightarrow>
                 if flags c AND ZTCP_ZFTP env \<noteq> 0 \<and> \<not> force
                 then Some (Inr (1, emit (Zwarnnam nam
                        ''use -f to force closure of a zftp control connection'' None 0) s))
                 else (case tcp_close sess s of
                         Inl e \<Rightarrow> Some (Inl e)
                       | Inr (r1, s1) \<Rightarrow>
                           (case zts_delete sess s1 of
                              None \<Rightarrow> None
                            | Some (Inl e) \<Rightarrow> Some (Inl e)
                            | Some (Inr (r2, s2)) \<Rightarrow> Some (Inr (0, s2)))))
          else Some (Inr (1, emit (Zwarnnam nam ''fd not found in tcp table'' None 0) s)))"

text \<open>
  The branch that opens a connection. \<^verbatim>\<open>setsockopt(sess->fd, ...)\<close> stands between
  the call of \<^verbatim>\<open>tcp_socket\<close> and the test \<^verbatim>\<open>if(!sess)\<close> where \<^verbatim>\<open>SO_OOBINLINE\<close> is
  defined.
\<close>

definition ztcp_open ::
  "environment \<Rightarrow> string \<Rightarrow> string \<Rightarrow> int \<Rightarrow> tcp_state \<Rightarrow> (fault + (int \<times> tcp_state)) option" where
  "ztcp_open env nam desthost destport s =
     (case getipnodebyname env desthost of
        None \<Rightarrow> Some (Inr (1, emit (Zwarnnam nam ''host resolution failure: %s'' (Some desthost) 0) s))
      | Some zthost \<Rightarrow>
          if errflag s
          then Some (Inr (1, emit (Zwarnnam nam ''host resolution failure: %s'' (Some desthost) 0) s))
          else
            (case tcp_socket (zcalloc_result env) (socket_result env) PF_INET SOCK_STREAM 0 0 s of
               Inl e \<Rightarrow> Some (Inl e)
             | Inr (sess, s1) \<Rightarrow>
                 (case (if have_SO_OOBINLINE env
                        then (case deref s1 sess of
                                Inl e \<Rightarrow> Inl e
                              | Inr c \<Rightarrow> Inr (os_setsockopt (fd c) s1))
                        else Inr s1) of
                    Inl e \<Rightarrow> Some (Inl e)
                  | Inr s2 \<Rightarrow>
                      if sess = 0
                      then Some (Inr (1, emit (Zwarnnam nam
                             ''unable to allocate a TCP session slot'' None 0) s2))
                      else
                        (case deref s2 sess of
                           Inl e \<Rightarrow> Some (Inl e)
                         | Inr c \<Rightarrow>
                             if fd c < 0 then
                               (case zts_delete sess (emit (Zwarnnam nam
                                       ''socket creation failed: %e'' None (errno s2)) s2) of
                                  None \<Rightarrow> None
                                | Some (Inl e) \<Rightarrow> Some (Inl e)
                                | Some (Inr (r, s3)) \<Rightarrow> Some (Inr (1, s3)))
                             else
                               (case connect_candidates nam 1 (h_addr_list zthost)
                                       (connect_results env) sess zthost (htons destport) s2 of
                                  None \<Rightarrow> None
                                | Some (Inl e) \<Rightarrow> Some (Inl e)
                                | Some (Inr (err, ocs1, s3)) \<Rightarrow>
                                    if err \<noteq> 0
                                    then Some (Inr (0, emit (Zwarnnam nam
                                           ''connection failed: %e'' None (errno s3)) s3))
                                    else Some (Inr (0, emit
                                           (OpenedLine desthost destport (fd c)) s3)))))))"

text \<open>
  \<^verbatim>\<open>bin_ztcp(nam, args, ops, func)\<close>; \<open>ops\<close> tells which option letters are set, and
  \<^verbatim>\<open>func\<close> is not used by the function.
\<close>

definition bin_ztcp ::
  "environment \<Rightarrow> string \<Rightarrow> string list \<Rightarrow> (char \<Rightarrow> bool) \<Rightarrow> tcp_state
     \<Rightarrow> (fault + (int \<times> tcp_state)) option" where
  "bin_ztcp env nam args ops s =
     (let force = ops CHR ''f''
      in if ops CHR ''c'' then
           (case args of
              [] \<Rightarrow>
                (case tcp_cleanup s of
                   None \<Rightarrow> None
                 | Some (Inl e) \<Rightarrow> Some (Inl e)
                 | Some (Inr s1) \<Rightarrow> Some (Inr (0, s1)))
            | a0 # rest \<Rightarrow> ztcp_close_fd env nam force (atoi a0) s)
         else
           (case args of
              [] \<Rightarrow>
                (case ztcp_list_loop env s (zts_head s) of
                   None \<Rightarrow> None
                 | Some (Inl e) \<Rightarrow> Some (Inl e)
                 | Some (Inr s1) \<Rightarrow> Some (Inr (0, s1)))
            | a0 # rest \<Rightarrow>
                ztcp_open env nam a0 (case rest of [] \<Rightarrow> 23 | a1 # rest1 \<Rightarrow> atoi a1) s))"

subsection \<open>Sequences of registry operations\<close>

text \<open>
  \<open>Allocate p f\<close> is a call \<^verbatim>\<open>zts_alloc(f)\<close> in which \<^verbatim>\<open>zcalloc\<close> returned \<open>p\<close>;
  \<open>Delete p\<close> is \<^verbatim>\<open>zts_delete(p)\<close>. A sequence stops at the first fault.
\<close>

datatype registry_op = Allocate addr int | Delete addr

fun run_ops :: "registry_op list \<Rightarrow> tcp_state \<Rightarrow> (fault + tcp_state) option" where
  "run_ops [] s = Some (Inr s)"
| "run_ops (Allocate p f # ops) s =
     (case zts_alloc p f s of
        Inl e \<Rightarrow> Some (Inl e)
      | Inr (r, s1) \<Rightarrow> run_ops ops s1)"
| "run_ops (Delete p # ops) s =
     (case zts_delete p s of
        None \<Rightarrow> None
      | Some (Inl e) \<Rightarrow> Some (Inl e)
      | Some (Inr (r, s1)) \<Rightarrow> run_ops ops s1)"

text \<open>
  The chain from \<open>p\<close> is the null-terminated list \<open>ps\<close> of allocated records.
\<close>

fun islist :: "(addr \<Rightarrow> tcp_session option) \<Rightarrow> addr \<Rightarrow> addr list \<Rightarrow> bool" where
  "islist h p [] = (p = 0)"
| "islist h p (x # xs) =
     (p = x \<and> p \<noteq> 0 \<and> (case h p of None \<Rightarrow> False | Some c \<Rightarrow> islist h (next_ptr c) xs))"

text \<open>The descriptor stored in the record at \<open>p\<close> (\<open>- 1\<close> where nothing is allocated).\<close>

definition fd_at :: "tcp_state \<Rightarrow> addr \<Rightarrow> int" where
  "fd_at s p = (case heap s p of None \<Rightarrow> - 1 | Some c \<Rightarrow> fd c)"

subsection \<open>The connect protocol, as a flat description\<close>

text \<open>
  The protocol of the open command, told one call of \<^verbatim>\<open>connect\<close> at a time. The
  candidates are taken in list order. A length-mismatch warning is given when a
  candidate is taken up (\<open>fresh\<close>). After each call: success stops the protocol; a
  failure that is an interrupted call (\<^verbatim>\<open>EINTR\<close>) while the shell's error flag is clear
  repeats the call on the same candidate; every other failure moves to the next
  candidate. When no candidate is left the last result is returned.
\<close>

fun connect_protocol ::
  "string \<Rightarrow> bool \<Rightarrow> int \<Rightarrow> byte list list \<Rightarrow> connect_outcome list \<Rightarrow> addr \<Rightarrow> hostent \<Rightarrow> int
     \<Rightarrow> tcp_state \<Rightarrow> (fault + (int \<times> connect_outcome list \<times> tcp_state)) option" where
  "connect_protocol nam fresh err [] ocs sess zthost d_port s = Some (Inr (err, ocs, s))"
| "connect_protocol nam fresh err (a # as) [] sess zthost d_port s =
     (let s0 = (if fresh \<and> h_length zthost \<noteq> 4
                then emit (Zwarnnam nam ''address length mismatch'' None 0) s else s)
      in (case tcp_connect None sess a zthost d_port s0 of
            Some (Inl e) \<Rightarrow> Some (Inl e)
          | other \<Rightarrow> None))"
| "connect_protocol nam fresh err (a # as) (oc # ocs) sess zthost d_port s =
     (let s0 = (if fresh \<and> h_length zthost \<noteq> 4
                then emit (Zwarnnam nam ''address length mismatch'' None 0) s else s)
      in (case tcp_connect (Some oc) sess a zthost d_port s0 of
            None \<Rightarrow> None
          | Some (Inl e) \<Rightarrow> Some (Inl e)
          | Some (Inr (r, s1)) \<Rightarrow>
              if r = 0 then Some (Inr (0, ocs, s1))
              else if errno s1 = EINTR \<and> \<not> errflag s1
              then connect_protocol nam False r (a # as) ocs sess zthost d_port s1
              else connect_protocol nam True r as ocs sess zthost d_port s1))"

subsection \<open>Reachable states\<close>

text \<open>The shape of the registry: which record links to which.\<close>

definition links :: "tcp_state \<Rightarrow> addr \<Rightarrow> addr option" where
  "links s p = map_option next_ptr (heap s p)"

text \<open>
  The states the module can be in: from the initial state by calls of
  \<^verbatim>\<open>tcp_socket\<close> (in which \<^verbatim>\<open>zcalloc\<close> returns \<^verbatim>\<open>NULL\<close> or an address that is not
  allocated), \<^verbatim>\<open>tcp_connect\<close>, \<^verbatim>\<open>tcp_close\<close> and \<^verbatim>\<open>zts_delete\<close> that return, and by
  any change of the process outside the heap and the two globals. The set is the
  sessions on which \<^verbatim>\<open>tcp_connect\<close> has been called since they were allocated.
\<close>

inductive reachable :: "tcp_state \<Rightarrow> addr set \<Rightarrow> bool" where
  reach_init: "reachable init_state {}"
| reach_socket:
    "reachable s A \<Longrightarrow> zc = 0 \<or> heap s zc = None \<Longrightarrow>
     tcp_socket zc res domain type protocol ztflags s = Inr (sess, s1) \<Longrightarrow>
     reachable s1 (A - {zc})"
| reach_connect:
    "reachable s A \<Longrightarrow> tcp_connect (Some oc) sess addrp zthost d_port s = Some (Inr (r, s1)) \<Longrightarrow>
     reachable s1 (insert sess A)"
| reach_close:
    "reachable s A \<Longrightarrow> tcp_close sess s = Inr (r, s1) \<Longrightarrow> reachable s1 A"
| reach_delete:
    "reachable s A \<Longrightarrow> zts_delete sess s = Some (Inr (r, s1)) \<Longrightarrow> reachable s1 A"
| reach_env:
    "reachable s A \<Longrightarrow> heap s1 = heap s \<Longrightarrow> ztcp_head s1 = ztcp_head s \<Longrightarrow>
     ztcp_tail s1 = ztcp_tail s \<Longrightarrow> reachable s1 A"

text \<open>
  What every reachable state satisfies: \<^verbatim>\<open>NULL\<close> is not allocated, the chain from the
  head is a null-terminated list \<open>ps\<close> of at most two records, and the tail pointer is
  the head or outside the list.
\<close>

definition registry_inv :: "tcp_state \<Rightarrow> addr list \<Rightarrow> bool" where
  "registry_inv s ps =
     (heap s 0 = None \<and> islist (heap s) (ztcp_head s) ps \<and> length ps \<le> 2 \<and>
      (ps = [] \<or> ztcp_tail s = hd ps \<or> ztcp_tail s \<notin> set ps))"

subsection \<open>Example states\<close>

text \<open>The state a run of registry operations from the empty registry ends in.\<close>

definition state_after :: "registry_op list \<Rightarrow> tcp_state" where
  "state_after ops = (case run_ops ops init_state of Some (Inr s) \<Rightarrow> s | other \<Rightarrow> init_state)"

text \<open>
  A resolver answer with two candidate addresses, an environment for one run of the
  command, and the state after one call \<^verbatim>\<open>tcp_socket(PF_INET, SOCK_STREAM, 0, fl)\<close> in
  which \<^verbatim>\<open>zcalloc\<close> returned the address 1 and \<^verbatim>\<open>socket\<close> the descriptor 3.
\<close>

definition example_host :: hostent where
  "example_host = \<lparr>h_name = ''localhost'', h_addrtype = 2, h_length = 4,
     h_addr_list = [[127, 0, 0, 1], [127, 0, 0, 2]]\<rparr>"

definition example_env :: environment where
  "example_env = \<lparr>ZTCP_ZFTP = 16, have_SO_OOBINLINE = True, zcalloc_result = 1,
     socket_result = (3, 0), getipnodebyname = (\<lambda>name. Some example_host),
     connect_results = [], gethostbyaddr = (\<lambda>a. None)\<rparr>"

definition session_state :: "int \<Rightarrow> tcp_state" where
  "session_state fl =
     (case tcp_socket 1 (3, 0) PF_INET SOCK_STREAM 0 fl init_state of
        Inr (p, s) \<Rightarrow> s
      | Inl e \<Rightarrow> init_state)"

text \<open>
  A run of calls \<^verbatim>\<open>tcp_socket(PF_INET, SOCK_STREAM, 0, fl)\<close> from a state, one for each
  triple: the address \<^verbatim>\<open>zcalloc\<close> returned, the descriptor \<^verbatim>\<open>socket\<close> returned, the
  flags.
\<close>

fun run_sockets :: "(addr \<times> int \<times> int) list \<Rightarrow> tcp_state \<Rightarrow> fault + tcp_state" where
  "run_sockets [] s = Inr s"
| "run_sockets ((zc, d, fl) # rest) s =
     (case tcp_socket zc (d, 0) PF_INET SOCK_STREAM 0 fl s of
        Inl e \<Rightarrow> Inl e
      | Inr (sess, s1) \<Rightarrow> run_sockets rest s1)"

text \<open>The peer address stored in the record at \<open>p\<close>.\<close>

definition peer_at :: "tcp_state \<Rightarrow> addr \<Rightarrow> tcp_sockaddr" where
  "peer_at s p = (case heap s p of None \<Rightarrow> zero_sockaddr | Some c \<Rightarrow> peer c)"

text \<open>The socket addresses given to \<^verbatim>\<open>connect\<close>, in the order of the calls.\<close>

fun connect_calls :: "event list \<Rightarrow> tcp_sockaddr list" where
  "connect_calls [] = []"
| "connect_calls (SysConnect d sa # es) = sa # connect_calls es"
| "connect_calls (e # es) = connect_calls es"

text \<open>
  Two runs of the open command. In the first the only answer that fails is an
  interrupted call during which the shell's error flag was set. In the second the first
  call is interrupted with the flag clear, and both candidates are then refused.
\<close>

definition interrupted_env :: environment where
  "interrupted_env = example_env\<lparr>connect_results :=
     [\<lparr>c_ret = - 1, c_errno = EINTR, c_errflag = True\<rparr>,
      \<lparr>c_ret = 0, c_errno = 0, c_errflag = False\<rparr>]\<rparr>"

definition refused_env :: environment where
  "refused_env = example_env\<lparr>connect_results :=
     [\<lparr>c_ret = - 1, c_errno = EINTR, c_errflag = False\<rparr>,
      \<lparr>c_ret = - 1, c_errno = 111, c_errflag = False\<rparr>,
      \<lparr>c_ret = - 1, c_errno = 110, c_errflag = False\<rparr>]\<rparr>"

section \<open>Evaluating the model\<close>

lemmas registry_eval =
  init_state_def zts_alloc_def zts_head_def deref_def zts_delete_def zts_delete_unlink_def
  free_ptr_def zts_next_def traverse_def tcp_cleanup_def tcp_close_def os_close_def Let_def
  zts_delete_scan.simps traverse_from.simps tcp_cleanup_loop.simps zts_byfd_def
  zts_byfd_loop.simps

lemmas ex_eval = session_state_def tcp_socket_def os_socket_def example_host_def example_env_def
  PF_INET_def SOCK_STREAM_def EINTR_def EBADF_def tcp_connect_def os_connect_def memcpy_def
  emit_def htons_def peer_at_def zero_sockaddr_def

lemmas cmd_eval = bin_ztcp_def ztcp_open_def ztcp_close_fd_def atoi_def isspace_def isdigit_def
  os_setsockopt_def

section \<open>Properties of the registry\<close>

lemma islist_unique: "islist h p xs \<Longrightarrow> islist h p ys \<Longrightarrow> xs = ys"
proof (induction xs arbitrary: p ys)
  case Nil
  then show ?case by (cases ys) auto
next
  case (Cons x xs)
  then show ?case by (cases ys) (auto split: option.splits)
qed

subsection \<open>Allocation: the tail pointer is never advanced\<close>

text \<open>
  Claim C1 (forward traversal visits each live session exactly once, in allocation
  order) fails on the code. \<^verbatim>\<open>zts_alloc\<close> stores the new record in
  \<^verbatim>\<open>ztcp_tail->next\<close> but never moves \<^verbatim>\<open>ztcp_tail\<close>, so a third allocation overwrites
  the link to the second: after three allocations at addresses 1, 2, 3 the traversal
  from the head visits 1 and 3 only, while the record at 2 is still allocated.
\<close>

theorem alloc_three_traversal_skips_second:
  "(case run_ops [Allocate 1 0, Allocate 2 0, Allocate 3 0] init_state of
      Some (Inr s) \<Rightarrow> traverse s = Some (Inr [1, 3]) \<and> heap s 2 \<noteq> None
    | other \<Rightarrow> False)"
  by (simp add: registry_eval)

text \<open>
  Claim C2 (the tail pointer references the last node reachable from the head and the
  tail's link is null) fails on the code: after two allocations the registry is
  \<open>[1, 2]\<close>, yet \<^verbatim>\<open>ztcp_tail\<close> is still the first record and its link is the second.
\<close>

theorem alloc_two_tail_not_last:
  "(case run_ops [Allocate 1 0, Allocate 2 0] init_state of
      Some (Inr s) \<Rightarrow>
        traverse s = Some (Inr [1, 2]) \<and> ztcp_tail s = 1 \<and> zts_next (ztcp_tail s) s = Inr 2
    | other \<Rightarrow> False)"
  by (simp add: registry_eval)

subsection \<open>Deletion\<close>

text \<open>
  Claim C3 (\<^verbatim>\<open>Delete(target)\<close> frees the target record itself) fails on the code
  for a target that is not the head: the link is rewritten first and \<^verbatim>\<open>free\<close> is
  then given the rewritten link, the target's successor. With the registry \<open>[1, 2]\<close>,
  deleting 2 returns 0 and unlinks 2, but calls \<^verbatim>\<open>free(NULL)\<close>: the record at 2 stays
  allocated.
\<close>

theorem delete_second_not_freed:
  "(case run_ops [Allocate 1 0, Allocate 2 0] init_state of
      Some (Inr s) \<Rightarrow>
        (case zts_delete 2 s of
           Some (Inr (r, s1)) \<Rightarrow> r = 0 \<and> traverse s1 = Some (Inr [1]) \<and> heap s1 2 \<noteq> None
         | other \<Rightarrow> False)
    | other \<Rightarrow> False)"
  by (simp add: registry_eval)

subsection \<open>Draining\<close>

text \<open>
  Claim C4 (the drain captures each node's successor before the node is deleted) fails
  on the code: \<^verbatim>\<open>tcp_cleanup\<close> saves the node itself in \<^verbatim>\<open>prev\<close>, deletes it, and
  only then reads \<^verbatim>\<open>prev->next\<close>. With one session at address 1 the read is of the
  record just freed.
\<close>

theorem cleanup_reads_freed_session:
  "(case run_ops [Allocate 1 0] init_state of
      Some (Inr s) \<Rightarrow> tcp_cleanup s = Some (Inl (BadPointer 1))
    | other \<Rightarrow> False)"
  by (simp add: registry_eval)

lemma cleanup_empty: "ztcp_head s = 0 \<Longrightarrow> tcp_cleanup s = Some (Inr s)"
  by (simp add: tcp_cleanup_def zts_head_def tcp_cleanup_loop.simps)

subsection \<open>Lookup by descriptor\<close>

lemma zts_byfd_loop_islist:
  "islist (heap s) p (x # xs) \<Longrightarrow>
   zts_byfd_loop s d p =
     Some (Inr (case find (\<lambda>q. fd_at s q = d) (x # xs) of None \<Rightarrow> 0 | Some q \<Rightarrow> q))"
proof (induction xs arbitrary: p x)
  case Nil
  then show ?case
    by (subst zts_byfd_loop.simps) (auto simp: deref_def fd_at_def split: option.splits)
next
  case (Cons y ys)
  from Cons.prems obtain c where c: "p = x" "x \<noteq> 0" "heap s x = Some c"
      "islist (heap s) (next_ptr c) (y # ys)"
    by (auto split: option.splits)
  then have ny: "next_ptr c = y" "y \<noteq> 0" by auto
  show ?case
  proof (cases "fd c = d")
    case True
    with c show ?thesis
      by (subst zts_byfd_loop.simps) (simp add: deref_def fd_at_def)
  next
    case False
    have "zts_byfd_loop s d p = zts_byfd_loop s d (next_ptr c)"
      using c ny False by (subst zts_byfd_loop.simps) (simp add: deref_def)
    also have "\<dots> =
        Some (Inr (case find (\<lambda>q. fd_at s q = d) (y # ys) of None \<Rightarrow> 0 | Some q \<Rightarrow> q))"
      using Cons.IH [OF c(4)] .
    finally show ?thesis using False c by (simp add: fd_at_def)
  qed
qed

lemma zts_byfd_empty: "ztcp_head s = 0 \<Longrightarrow> zts_byfd d s = Some (Inl NullDeref)"
  by (simp add: zts_byfd_def zts_head_def zts_byfd_loop.simps deref_def)

text \<open>
  On a state whose chain from the head is the non-empty list \<open>ps\<close>, \<^verbatim>\<open>zts_byfd(d)\<close>
  returns the first session of \<open>ps\<close> whose descriptor is \<open>d\<close>, or \<^verbatim>\<open>NULL\<close> when no
  session of \<open>ps\<close> has that descriptor.
\<close>

lemma zts_byfd_first_in_chain:
  assumes "islist (heap s) (ztcp_head s) ps" and "ps \<noteq> []"
  shows "zts_byfd d s =
           Some (Inr (case find (\<lambda>q. fd_at s q = d) ps of None \<Rightarrow> 0 | Some q \<Rightarrow> q))"
proof -
  from assms(2) obtain x xs where "ps = x # xs" by (cases ps) auto
  with assms(1) show ?thesis
    unfolding zts_byfd_def zts_head_def using zts_byfd_loop_islist by blast
qed

text \<open>
  Claim C10 (\<^verbatim>\<open>zts_byfd\<close> returns the first-allocated session with the descriptor, or
  none if no session matches) fails on the code, because the chain it scans loses
  sessions: \<^verbatim>\<open>zts_alloc\<close> never advances \<^verbatim>\<open>ztcp_tail\<close>. After three calls of
  \<^verbatim>\<open>tcp_socket\<close> with the descriptors 3, 4, 5 the lookup of 4 returns \<^verbatim>\<open>NULL\<close>, although
  session 2 is allocated and holds the open descriptor 4. And when \<^verbatim>\<open>socket\<close> failed for
  the second and the third session, the lookup of \<open>- 1\<close> returns the third, not the
  second, which was allocated first.
\<close>

theorem lookup_misses_live_session:
  "(case run_sockets [(1, 3, 0), (2, 4, 0), (3, 5, 0)] init_state of
      Inr s \<Rightarrow>
        heap s 2 \<noteq> None \<and> fd_at s 2 = 4 \<and> 4 \<in> open_fds s \<and> zts_byfd 4 s = Some (Inr 0)
    | Inl e \<Rightarrow> False) \<and>
   (case run_sockets [(1, 3, 0), (2, - 1, 0), (3, - 1, 0)] init_state of
      Inr s \<Rightarrow>
        heap s 2 \<noteq> None \<and> fd_at s 2 = - 1 \<and> fd_at s 3 = - 1 \<and> zts_byfd (- 1) s = Some (Inr 3)
    | Inl e \<Rightarrow> False)"
  by (simp add: ex_eval registry_eval fd_at_def)

subsection \<open>The invariant of the reachable states\<close>

lemma islist_links:
  "\<forall>q. map_option next_ptr (h q) = map_option next_ptr (h' q) \<Longrightarrow> islist h p ps = islist h' p ps"
proof (induction ps arbitrary: p)
  case Nil
  then show ?case by simp
next
  case (Cons x xs)
  have "map_option next_ptr (h p) = map_option next_ptr (h' p)" using Cons.prems by blast
  then show ?case
    using Cons.IH [OF Cons.prems] by (cases "h p"; cases "h' p") auto
qed

lemma islist_cases2:
  assumes "islist h p ps" and "length ps \<le> 2"
  obtains "ps = []" "p = 0"
  | a ca where "ps = [a]" "p = a" "a \<noteq> 0" "h a = Some ca" "next_ptr ca = 0"
  | a b ca cb where "ps = [a, b]" "p = a" "a \<noteq> 0" "b \<noteq> 0" "a \<noteq> b" "h a = Some ca" "next_ptr ca = b"
      "h b = Some cb" "next_ptr cb = 0"
proof (cases ps)
  case Nil
  with assms that(1) show ?thesis by simp
next
  case (Cons a qs)
  note psa = this
  show ?thesis
  proof (cases qs)
    case Nil
    with psa assms that(2) show ?thesis by (auto split: option.splits)
  next
    case (Cons b rs)
    with psa assms(2) have rs: "rs = []" by simp
    from psa Cons rs assms(1) obtain ca cb where
      f: "p = a" "a \<noteq> 0" "h a = Some ca" "next_ptr ca = b" "b \<noteq> 0" "h b = Some cb" "next_ptr cb = 0"
      by (auto split: option.splits)
    then have "a \<noteq> b" by auto
    with f psa Cons rs that(3) show ?thesis by blast
  qed
qed

lemma zts_alloc_inv:
  assumes inv: "registry_inv s ps" and zc: "zc \<noteq> 0" "heap s zc = None"
    and al: "zts_alloc zc fl s = Inr (r, s1)"
  shows "\<exists>ps'. registry_inv s1 ps'"
proof -
  from inv have l: "islist (heap s) (ztcp_head s) ps" "length ps \<le> 2" and z: "heap s 0 = None"
    and tl: "ps = [] \<or> ztcp_tail s = hd ps \<or> ztcp_tail s \<notin> set ps"
    by (auto simp: registry_inv_def)
  let ?new = "\<lparr>fd = - 1, peer = zero_sockaddr, flags = fl, next_ptr = 0\<rparr>"
  from l show ?thesis
  proof (cases rule: islist_cases2)
    case 1
    with al zc have s1: "s1 = s\<lparr>heap := (heap s)(zc \<mapsto> ?new), ztcp_head := zc, ztcp_tail := zc\<rparr>"
      by (auto simp: zts_alloc_def zts_head_def Let_def)
    have "registry_inv s1 [zc]"
      unfolding s1 using zc z by (simp add: registry_inv_def)
    then show ?thesis ..
  next
    case (2 a ca)
    then have azc: "a \<noteq> zc" using zc by auto
    show ?thesis
    proof (cases "ztcp_tail s = a")
      case True
      with 2 al zc azc have s1: "s1 = s\<lparr>heap := (heap s)(zc \<mapsto> ?new, a \<mapsto> ca\<lparr>next_ptr := zc\<rparr>)\<rparr>"
        by (auto simp: zts_alloc_def zts_head_def Let_def deref_def)
      have "registry_inv s1 [a, zc]"
        unfolding s1 using 2 zc z azc True by (simp add: registry_inv_def)
      then show ?thesis ..
    next
      case False
      from al zc 2 obtain t where
        s1: "s1 = s\<lparr>heap := (heap s)(zc \<mapsto> ?new, ztcp_tail s \<mapsto> t)\<rparr>" and "ztcp_tail s \<noteq> 0"
        by (auto simp: zts_alloc_def zts_head_def Let_def deref_def split: if_splits option.splits)
      have "registry_inv s1 [a]"
        unfolding s1 using 2 zc z azc False \<open>ztcp_tail s \<noteq> 0\<close> by (simp add: registry_inv_def)
      then show ?thesis ..
    qed
  next
    case (3 a b ca cb)
    then have azc: "a \<noteq> zc" "b \<noteq> zc" using zc by auto
    show ?thesis
    proof (cases "ztcp_tail s = a")
      case True
      with 3 al zc azc have s1: "s1 = s\<lparr>heap := (heap s)(zc \<mapsto> ?new, a \<mapsto> ca\<lparr>next_ptr := zc\<rparr>)\<rparr>"
        by (auto simp: zts_alloc_def zts_head_def Let_def deref_def)
      have "registry_inv s1 [a, zc]"
        unfolding s1 using 3 zc z azc True by (simp add: registry_inv_def)
      then show ?thesis ..
    next
      case False
      with 3 tl have tb: "ztcp_tail s \<noteq> b" by auto
      from al zc 3 obtain t where
        s1: "s1 = s\<lparr>heap := (heap s)(zc \<mapsto> ?new, ztcp_tail s \<mapsto> t)\<rparr>" and "ztcp_tail s \<noteq> 0"
        by (auto simp: zts_alloc_def zts_head_def Let_def deref_def split: if_splits option.splits)
      have "registry_inv s1 [a, b]"
        unfolding s1 using 3 zc z azc False tb \<open>ztcp_tail s \<noteq> 0\<close> by (simp add: registry_inv_def)
      then show ?thesis ..
    qed
  qed
qed

lemma zts_delete_inv:
  assumes inv: "registry_inv s ps" and del: "zts_delete t s = Some (Inr (r, s1))"
  shows "registry_inv s1 (remove1 t ps) \<and> r = (if t \<in> set ps then 0 else 1)"
proof -
  from inv have l: "islist (heap s) (ztcp_head s) ps" "length ps \<le> 2" and z: "heap s 0 = None"
    and tl: "ps = [] \<or> ztcp_tail s = hd ps \<or> ztcp_tail s \<notin> set ps"
    by (auto simp: registry_inv_def)
  from l show ?thesis
  proof (cases rule: islist_cases2)
    case 1
    with del show ?thesis
      by (cases "t = 0") (simp_all add: zts_delete_def zts_head_def Let_def deref_def zts_delete_scan.simps)
  next
    case (2 a ca)
    show ?thesis
    proof (cases "t = a")
      case True
      with 2 del have "s1 = s\<lparr>ztcp_head := 0, heap := (heap s)(a := None)\<rparr>" "r = 0"
        by (auto simp: zts_delete_def zts_head_def Let_def deref_def free_ptr_def)
      with 2 True z show ?thesis by (simp add: registry_inv_def)
    next
      case False
      with 2 del have "s1 = s" "r = 1"
        by (auto simp: zts_delete_def zts_head_def Let_def deref_def zts_delete_scan.simps
            zts_delete_unlink_def)
      with 2 False inv show ?thesis by simp
    qed
  next
    case (3 a b ca cb)
    show ?thesis
    proof (cases "t = a")
      case True
      with 3 del have "s1 = s\<lparr>ztcp_head := b, heap := (heap s)(a := None)\<rparr>" "r = 0"
        by (auto simp: zts_delete_def zts_head_def Let_def deref_def free_ptr_def)
      with 3 True z show ?thesis by (simp add: registry_inv_def)
    next
      case na: False
      show ?thesis
      proof (cases "t = b")
        case True
        with 3 del have "s1 = s\<lparr>heap := (heap s)(a \<mapsto> ca\<lparr>next_ptr := 0\<rparr>)\<rparr>" "r = 0"
          by (auto simp: zts_delete_def zts_head_def Let_def deref_def zts_delete_scan.simps
              zts_delete_unlink_def free_ptr_def)
        with 3 True z tl show ?thesis by (auto simp: registry_inv_def)
      next
        case False
        with na 3 del have "s1 = s" "r = 1"
          by (auto simp: zts_delete_def zts_head_def Let_def deref_def zts_delete_scan.simps
              zts_delete_unlink_def)
        with 3 False na inv show ?thesis by simp
      qed
    qed
  qed
qed

lemma zts_delete_total:
  assumes inv: "registry_inv s ps" and t: "t \<in> set ps"
  shows "\<exists>s1. zts_delete t s = Some (Inr (0, s1))"
proof -
  from inv have l: "islist (heap s) (ztcp_head s) ps" "length ps \<le> 2"
    by (auto simp: registry_inv_def)
  from l show ?thesis
  proof (cases rule: islist_cases2)
    case 1
    with t show ?thesis by simp
  next
    case (2 a ca)
    with t show ?thesis
      by (simp add: zts_delete_def zts_head_def Let_def deref_def free_ptr_def)
  next
    case (3 a b ca cb)
    with t show ?thesis
      by (auto simp: zts_delete_def zts_head_def Let_def deref_def zts_delete_scan.simps
          zts_delete_unlink_def free_ptr_def)
  qed
qed

lemma deref_Inr: "deref s p = Inr c \<longleftrightarrow> p \<noteq> 0 \<and> heap s p = Some c"
  by (auto simp: deref_def split: option.splits)

lemma registry_inv_frame:
  assumes "registry_inv s ps" and "\<forall>q. links s1 q = links s q"
    and "ztcp_head s1 = ztcp_head s" and "ztcp_tail s1 = ztcp_tail s"
  shows "registry_inv s1 ps"
proof -
  have e: "\<forall>q. map_option next_ptr (heap s1 q) = map_option next_ptr (heap s q)"
    using assms(2) by (simp add: links_def)
  then have "map_option next_ptr (heap s1 0) = map_option next_ptr (heap s 0)" by blast
  with assms(1) have z: "heap s1 0 = None" by (simp add: registry_inv_def)
  from islist_links [OF e] assms z show ?thesis by (simp add: registry_inv_def)
qed

lemma tcp_socket_unfold:
  assumes "tcp_socket zc res domain type protocol fl s = Inr (sess, s1)"
  shows "(zc = 0 \<and> sess = 0 \<and> s1 = s) \<or>
         (zc \<noteq> 0 \<and> sess = zc \<and> (\<exists>s' c. zts_alloc zc fl s = Inr (zc, s') \<and> heap s' zc = Some c \<and>
            peer c = zero_sockaddr \<and>
            heap s1 = (heap s')(zc \<mapsto> c\<lparr>fd := fst res\<rparr>) \<and> ztcp_head s1 = ztcp_head s' \<and>
            ztcp_tail s1 = ztcp_tail s'))"
proof (cases "zc = 0")
  case True
  with assms show ?thesis by (auto simp: tcp_socket_def zts_alloc_def)
next
  case False
  from assms False obtain s' where a: "zts_alloc zc fl s = Inr (zc, s')"
    by (auto simp: tcp_socket_def zts_alloc_def Let_def split: if_splits sum.splits)
  from a False obtain c where c: "heap s' zc = Some c" "peer c = zero_sockaddr"
    by (auto simp: zts_alloc_def Let_def deref_def split: if_splits sum.splits option.splits)
  from assms a c False show ?thesis
    by (cases res) (auto simp: tcp_socket_def os_socket_def deref_def)
qed

lemma zts_alloc_peer:
  assumes "zts_alloc zc fl s = Inr (r, s1)" and "heap s1 p = Some c1" and "p \<noteq> zc"
  shows "\<exists>c. heap s p = Some c \<and> peer c = peer c1"
  using assms
  by (auto simp: zts_alloc_def Let_def deref_def split: if_splits sum.splits option.splits)

lemma zts_delete_peer:
  assumes "zts_delete t s = Some (Inr (r, s1))" and "heap s1 p = Some c1"
  shows "\<exists>c. heap s p = Some c \<and> peer c = peer c1"
proof (cases "zts_head s = t")
  case True
  with assms show ?thesis
    by (auto simp: zts_delete_def Let_def deref_def free_ptr_def split: if_splits option.splits)
next
  case False
  with assms obtain u where "zts_delete_unlink u s = Inr (r, s1)"
    by (auto simp: zts_delete_def Let_def split: option.splits sum.splits)
  with assms(2) show ?thesis
    by (auto simp: zts_delete_unlink_def Let_def deref_def free_ptr_def
        split: if_splits option.splits)
qed

lemma tcp_close_frame:
  assumes "tcp_close sess s = Inr (r, s1)"
  shows "heap s1 = heap s \<and> ztcp_head s1 = ztcp_head s \<and> ztcp_tail s1 = ztcp_tail s"
  using assms
  by (auto simp: tcp_close_def os_close_def deref_def split: if_splits option.splits)

lemma tcp_connect_frame:
  assumes "tcp_connect ans sess a zh port s = Some (Inr (r, s1))"
  shows "\<exists>c oc bytes. heap s sess = Some c \<and> sess \<noteq> 0 \<and> ans = Some oc \<and> r = c_ret oc \<and>
     memcpy (sin_addr (peer c) @ sin_zero (peer c)) a (h_length zh) = Some bytes \<and>
     heap s1 = (heap s)(sess \<mapsto> c\<lparr>peer := (peer c)\<lparr>
        sin_addr := take (length (sin_addr (peer c))) bytes,
        sin_zero := drop (length (sin_addr (peer c))) bytes,
        sin_port := word_of_int port, sa_family := word_of_int (h_addrtype zh)\<rparr>\<rparr>) \<and>
     ztcp_head s1 = ztcp_head s \<and> ztcp_tail s1 = ztcp_tail s \<and>
     errno s1 = (if c_ret oc \<noteq> 0 then c_errno oc else errno s) \<and>
     errflag s1 = (errflag s \<or> c_errflag oc) \<and> open_fds s1 = open_fds s"
proof -
  from assms have nz: "sess \<noteq> 0"
    by (cases "sess = 0") (simp_all add: tcp_connect_def deref_def)
  with assms obtain c where c: "heap s sess = Some c"
    by (cases "heap s sess") (simp_all add: tcp_connect_def deref_def)
  with assms nz obtain bytes where
    b: "memcpy (sin_addr (peer c) @ sin_zero (peer c)) a (h_length zh) = Some bytes"
    by (cases "memcpy (sin_addr (peer c) @ sin_zero (peer c)) a (h_length zh)")
      (simp_all add: tcp_connect_def deref_def)
  with assms nz c obtain oc where oc: "ans = Some oc"
    by (cases ans) (simp_all add: tcp_connect_def deref_def Let_def)
  let ?pr = "(peer c)\<lparr>sin_addr := take (length (sin_addr (peer c))) bytes,
        sin_zero := drop (length (sin_addr (peer c))) bytes,
        sin_port := word_of_int port, sa_family := word_of_int (h_addrtype zh)\<rparr>"
  let ?s0 = "s\<lparr>heap := (heap s)(sess \<mapsto> c\<lparr>peer := ?pr\<rparr>)\<rparr>"
  from assms nz c b oc have e: "os_connect oc (fd c) ?pr ?s0 = (r, s1)"
    by (simp add: tcp_connect_def deref_def Let_def)
  then have r: "r = c_ret oc" by (auto simp: os_connect_def)
  from e have s1: "s1 = ?s0\<lparr>errno := (if c_ret oc \<noteq> 0 then c_errno oc else errno ?s0),
        errflag := (errflag ?s0 \<or> c_errflag oc),
        trace := trace ?s0 @ [SysConnect (fd c) ?pr]\<rparr>"
    unfolding os_connect_def by (metis snd_conv)
  show ?thesis
    unfolding s1 using nz c b oc r by simp
qed

lemma reachable_inv:
  "reachable s A \<Longrightarrow>
     (\<exists>ps. registry_inv s ps) \<and> (\<forall>p c. heap s p = Some c \<longrightarrow> p \<notin> A \<longrightarrow> peer c = zero_sockaddr)"
proof (induction rule: reachable.induct)
  case reach_init
  have "registry_inv init_state []" by (simp add: registry_inv_def init_state_def)
  then show ?case by (auto simp: init_state_def)
next
  case (reach_socket s A zc res domain type protocol ztflags sess s1)
  then obtain ps where inv: "registry_inv s ps"
    and pz: "\<And>p c. heap s p = Some c \<Longrightarrow> p \<notin> A \<Longrightarrow> peer c = zero_sockaddr" by blast
  from inv have z: "heap s 0 = None" by (simp add: registry_inv_def)
  from tcp_socket_unfold [OF reach_socket.hyps(3)] show ?case
  proof (elim disjE conjE exE)
    assume "zc = 0" "s1 = s"
    with inv pz z show ?thesis by auto
  next
    fix s' c
    assume h: "zc \<noteq> 0" "zts_alloc zc ztflags s = Inr (zc, s')" "heap s' zc = Some c"
      "peer c = zero_sockaddr" "heap s1 = (heap s')(zc \<mapsto> c\<lparr>fd := fst res\<rparr>)"
      "ztcp_head s1 = ztcp_head s'" "ztcp_tail s1 = ztcp_tail s'"
    from h(1) reach_socket.hyps(2) have fresh: "heap s zc = None" by simp
    from zts_alloc_inv [OF inv h(1) fresh h(2)] obtain ps' where inv': "registry_inv s' ps'" ..
    have "\<forall>q. links s1 q = links s' q" using h(3,5) by (simp add: links_def)
    from registry_inv_frame [OF inv' this h(6,7)] have i1: "\<exists>ps. registry_inv s1 ps" ..
    have "peer c1 = zero_sockaddr" if p: "heap s1 p = Some c1" "p \<notin> A - {zc}" for p c1
    proof (cases "p = zc")
      case True
      with p h show ?thesis by auto
    next
      case False
      with p h have "heap s' p = Some c1" by simp
      from zts_alloc_peer [OF h(2) this False] pz p(2) False show ?thesis by auto
    qed
    with i1 show ?thesis by blast
  qed
next
  case (reach_connect s A oc sess addrp zthost d_port r s1)
  then obtain ps where inv: "registry_inv s ps"
    and pz: "\<And>p c. heap s p = Some c \<Longrightarrow> p \<notin> A \<Longrightarrow> peer c = zero_sockaddr" by blast
  from tcp_connect_frame [OF reach_connect.hyps(2)] obtain c pr where
    f: "heap s sess = Some c" "ztcp_head s1 = ztcp_head s" "ztcp_tail s1 = ztcp_tail s"
      "heap s1 = (heap s)(sess \<mapsto> c\<lparr>peer := pr\<rparr>)"
    by blast
  have "\<forall>q. links s1 q = links s q" using f(1,4) by (simp add: links_def)
  from registry_inv_frame [OF inv this f(2,3)] have "\<exists>ps. registry_inv s1 ps" ..
  moreover have "peer c1 = zero_sockaddr" if "heap s1 p = Some c1" "p \<notin> insert sess A" for p c1
    using that f(4) pz by (auto split: if_splits)
  ultimately show ?case by blast
next
  case (reach_close s A sess r s1)
  then obtain ps where inv: "registry_inv s ps"
    and pz: "\<And>p c. heap s p = Some c \<Longrightarrow> p \<notin> A \<Longrightarrow> peer c = zero_sockaddr" by blast
  from tcp_close_frame [OF reach_close.hyps(2)]
  have f: "heap s1 = heap s" "ztcp_head s1 = ztcp_head s" "ztcp_tail s1 = ztcp_tail s" by auto
  have "\<forall>q. links s1 q = links s q" using f(1) by (simp add: links_def)
  from registry_inv_frame [OF inv this f(2,3)] have "\<exists>ps. registry_inv s1 ps" ..
  with pz f(1) show ?case by auto
next
  case (reach_delete s A sess r s1)
  then obtain ps where inv: "registry_inv s ps"
    and pz: "\<And>p c. heap s p = Some c \<Longrightarrow> p \<notin> A \<Longrightarrow> peer c = zero_sockaddr" by blast
  from zts_delete_inv [OF inv reach_delete.hyps(2)] have "\<exists>ps. registry_inv s1 ps" by blast
  moreover have "peer c1 = zero_sockaddr" if "heap s1 p = Some c1" "p \<notin> A" for p c1
    using zts_delete_peer [OF reach_delete.hyps(2) that(1)] pz that(2) by auto
  ultimately show ?case by blast
next
  case (reach_env s A s1)
  then obtain ps where inv: "registry_inv s ps"
    and pz: "\<And>p c. heap s p = Some c \<Longrightarrow> p \<notin> A \<Longrightarrow> peer c = zero_sockaddr" by blast
  have "\<forall>q. links s1 q = links s q" using reach_env.hyps(2) by (simp add: links_def)
  from registry_inv_frame [OF inv this reach_env.hyps(3,4)] have "\<exists>ps. registry_inv s1 ps" ..
  with pz reach_env.hyps(2) show ?case by auto
qed




subsection \<open>The peer address\<close>




subsection \<open>Closing twice\<close>

text \<open>
  Claim C7 as stated (closing a session whose descriptor is already \<open>- 1\<close> is a
  reported failure) fails on the code: on that path \<^verbatim>\<open>tcp_close\<close> returns \<open>- 1\<close> and
  prints nothing; only a failure of \<^verbatim>\<open>close\<close> itself is reported with \<^verbatim>\<open>zwarn\<close>. For
  a fresh session the call returns \<open>- 1\<close> and the trace is still empty.
\<close>

theorem close_unopened_is_silent:
  "(case tcp_close 1 (state_after [Allocate 1 0]) of
      Inr (r, s) \<Rightarrow> r = - 1 \<and> trace s = []
    | Inl e \<Rightarrow> False)"
  by (simp add: state_after_def registry_eval)

text \<open>
  Claim C7, amended. For a session record \<open>c\<close> at \<open>sess\<close>: \<^verbatim>\<open>tcp_close\<close> returns, and
  it changes neither the heap (so the descriptor field is not reset to \<open>- 1\<close>) nor the
  head and tail pointers (so the session stays in the registry). With the descriptor
  \<open>- 1\<close> it returns the failure value \<open>- 1\<close> and does nothing else: no diagnostic. With
  any other descriptor the first call returns 0 when the descriptor is open and
  \<open>- 1\<close>, with a warning, when \<^verbatim>\<open>close\<close> fails; a second call on the same session calls
  \<^verbatim>\<open>close\<close> on the same descriptor again, warns \<^verbatim>\<open>connection close failed\<close> and
  returns \<open>- 1\<close>.
\<close>

theorem tcp_close_twice:
  assumes "deref s sess = Inr c"
  shows "\<exists>r1 s1. tcp_close sess s = Inr (r1, s1) \<and>
           heap s1 = heap s \<and> ztcp_head s1 = ztcp_head s \<and> ztcp_tail s1 = ztcp_tail s \<and>
           (fd c = - 1 \<longrightarrow> r1 = - 1 \<and> s1 = s) \<and>
           (fd c \<noteq> - 1 \<longrightarrow>
              r1 = (if fd c \<in> open_fds s then 0 else - 1) \<and>
              trace s1 = trace s @
                (if fd c \<in> open_fds s then [SysClose (fd c)]
                 else [SysClose (fd c), Zwarn ''connection close failed: %e'' EBADF]) \<and>
              (\<exists>s2. tcp_close sess s1 = Inr (- 1, s2) \<and> heap s2 = heap s \<and>
                    ztcp_head s2 = ztcp_head s \<and> ztcp_tail s2 = ztcp_tail s \<and>
                    trace s2 = trace s1 @
                      [SysClose (fd c), Zwarn ''connection close failed: %e'' EBADF]))"
proof (cases "fd c = - 1")
  case True
  with assms show ?thesis by (simp add: tcp_close_def)
next
  case False
  show ?thesis
  proof (cases "fd c \<in> open_fds s")
    case True
    let ?s1 = "s\<lparr>open_fds := open_fds s - {fd c}, trace := trace s @ [SysClose (fd c)]\<rparr>"
    from assms False True have 1: "tcp_close sess s = Inr (0, ?s1)"
      by (simp add: tcp_close_def os_close_def)
    from assms have d: "deref ?s1 sess = Inr c" by (simp add: deref_Inr)
    from d False have 2: "tcp_close sess ?s1 = Inr (- 1, ?s1\<lparr>errno := EBADF,
        trace := trace ?s1 @ [SysClose (fd c), Zwarn ''connection close failed: %e'' EBADF]\<rparr>)"
      by (simp add: tcp_close_def os_close_def)
    from 1 2 False True show ?thesis by simp
  next
    case nopen: False
    let ?s1 = "s\<lparr>errno := EBADF,
        trace := trace s @ [SysClose (fd c), Zwarn ''connection close failed: %e'' EBADF]\<rparr>"
    from assms False nopen have 1: "tcp_close sess s = Inr (- 1, ?s1)"
      by (simp add: tcp_close_def os_close_def)
    from assms have d: "deref ?s1 sess = Inr c" by (simp add: deref_Inr)
    from d False nopen have 2: "tcp_close sess ?s1 = Inr (- 1, ?s1\<lparr>errno := EBADF,
        trace := trace ?s1 @ [SysClose (fd c), Zwarn ''connection close failed: %e'' EBADF]\<rparr>)"
      by (simp add: tcp_close_def os_close_def)
    from 1 2 False nopen show ?thesis by simp
  qed
qed

lemma session_state_cell:
  "deref (session_state fl) 1 = Inr \<lparr>fd = 3, peer = zero_sockaddr, flags = fl, next_ptr = 0\<rparr>"
  by (simp add: ex_eval registry_eval)

theorem tcp_close_twice_witness:
  "tcp_close 1 (state_after [Allocate 1 0]) = Inr (- 1, state_after [Allocate 1 0]) \<and>
   (\<exists>s1 s2. tcp_close 1 (session_state 0) = Inr (0, s1) \<and> tcp_close 1 s1 = Inr (- 1, s2) \<and>
      heap s2 = heap (session_state 0) \<and>
      trace s2 = trace s1 @ [SysClose 3, Zwarn ''connection close failed: %e'' EBADF])"
proof -
  have d: "deref (state_after [Allocate 1 0]) 1 =
      Inr \<lparr>fd = - 1, peer = zero_sockaddr, flags = 0, next_ptr = 0\<rparr>"
    by (simp add: state_after_def registry_eval)
  from tcp_close_twice [OF d]
  have a: "tcp_close 1 (state_after [Allocate 1 0]) = Inr (- 1, state_after [Allocate 1 0])"
    by auto
  have o: "3 \<in> open_fds (session_state 0)" by (simp add: ex_eval registry_eval)
  from tcp_close_twice [OF session_state_cell [of 0]] o
  have b: "\<exists>s1 s2. tcp_close 1 (session_state 0) = Inr (0, s1) \<and> tcp_close 1 s1 = Inr (- 1, s2) \<and>
      heap s2 = heap (session_state 0) \<and>
      trace s2 = trace s1 @ [SysClose 3, Zwarn ''connection close failed: %e'' EBADF]"
    by auto
  from a b show ?thesis by (rule conjI)
qed

subsection \<open>Closing a zftp control connection\<close>

lemma tcp_close_effect:
  assumes "heap s t = Some c" and "t \<noteq> 0"
  shows "\<exists>r s1. tcp_close t s = Inr (r, s1) \<and> heap s1 = heap s \<and> ztcp_head s1 = ztcp_head s \<and>
     ztcp_tail s1 = ztcp_tail s \<and>
     (fd c \<noteq> - 1 \<longrightarrow> fd c \<notin> open_fds s1 \<and> SysClose (fd c) \<in> set (trace s1))"
  using assms by (simp add: tcp_close_def os_close_def deref_def)

lemma zts_delete_frame:
  assumes "zts_delete t s = Some (Inr (r, s1))"
  shows "open_fds s1 = open_fds s \<and> trace s1 = trace s \<and> errno s1 = errno s \<and> errflag s1 = errflag s"
proof (cases "zts_head s = t")
  case True
  with assms show ?thesis
    by (auto simp: zts_delete_def Let_def deref_def free_ptr_def split: if_splits option.splits)
next
  case False
  with assms obtain u where "zts_delete_unlink u s = Inr (r, s1)"
    by (auto simp: zts_delete_def Let_def split: option.splits sum.splits)
  then show ?thesis
    by (auto simp: zts_delete_unlink_def Let_def deref_def free_ptr_def
        split: if_splits option.splits)
qed

lemma zts_byfd_found:
  assumes "islist (heap s) (ztcp_head s) ps" and "zts_byfd d s = Some (Inr t)" and "t \<noteq> 0"
  shows "t \<in> set ps"
proof (cases ps)
  case Nil
  with assms show ?thesis by (simp add: zts_byfd_def zts_head_def zts_byfd_loop.simps deref_def)
next
  case (Cons x xs)
  with assms(1) have "zts_byfd d s =
      Some (Inr (case find (\<lambda>q. fd_at s q = d) ps of None \<Rightarrow> 0 | Some q \<Rightarrow> q))"
    unfolding zts_byfd_def zts_head_def using zts_byfd_loop_islist by blast
  with assms(2,3) have "find (\<lambda>q. fd_at s q = d) ps = Some t"
    by (auto split: option.splits)
  then show ?thesis by (auto simp: find_Some_iff)
qed

text \<open>
  In a reachable state, let the command \<^verbatim>\<open>ztcp -c fd\<close> find the session \<open>t\<close> for its
  descriptor argument, and let \<open>t\<close> carry the flag \<^verbatim>\<open>ZTCP_ZFTP\<close>. Without \<^verbatim>\<open>-f\<close> the
  command returns status 1 and the state is the old one with the one diagnostic added
  to the trace. With \<^verbatim>\<open>-f\<close> it returns status 0, \<open>t\<close> is unlinked from the registry
  list and its descriptor (when it is not \<open>- 1\<close>) is closed. Whether the record of \<open>t\<close>
  is freed is another matter: see below.
\<close>

lemma ztcp_close_zftp_unlinks:
  assumes r: "reachable s A" and c: "ops CHR ''c''"
    and f: "zts_byfd (atoi a0) s = Some (Inr t)" and h: "heap s t = Some cell"
    and z: "flags cell AND ZTCP_ZFTP env \<noteq> 0"
  shows "(\<not> ops CHR ''f'' \<longrightarrow>
            bin_ztcp env nam (a0 # rest) ops s =
              Some (Inr (1, emit (Zwarnnam nam
                ''use -f to force closure of a zftp control connection'' None 0) s))) \<and>
         (ops CHR ''f'' \<longrightarrow>
            (\<exists>ps s1. islist (heap s) (ztcp_head s) ps \<and> t \<in> set ps \<and>
               bin_ztcp env nam (a0 # rest) ops s = Some (Inr (0, s1)) \<and>
               islist (heap s1) (ztcp_head s1) (remove1 t ps) \<and>
               (fd cell \<noteq> - 1 \<longrightarrow> fd cell \<notin> open_fds s1 \<and> SysClose (fd cell) \<in> set (trace s1))))"
proof -
  from reachable_inv [OF r] obtain ps where inv: "registry_inv s ps" by blast
  then have l: "islist (heap s) (ztcp_head s) ps" and z0: "heap s 0 = None"
    by (simp_all add: registry_inv_def)
  from h z0 have t0: "t \<noteq> 0" by (cases "t = 0") auto
  from zts_byfd_found [OF l f t0] have tin: "t \<in> set ps" .
  from h t0 have d: "deref s t = Inr cell" by (simp add: deref_def)
  have unforced: "bin_ztcp env nam (a0 # rest) ops s =
      Some (Inr (1, emit (Zwarnnam nam
        ''use -f to force closure of a zftp control connection'' None 0) s))"
    if "\<not> ops CHR ''f''"
    using that c f t0 d z by (simp add: bin_ztcp_def ztcp_close_fd_def)
  have forced: "\<exists>s1. bin_ztcp env nam (a0 # rest) ops s = Some (Inr (0, s1)) \<and>
               islist (heap s1) (ztcp_head s1) (remove1 t ps) \<and>
               (fd cell \<noteq> - 1 \<longrightarrow> fd cell \<notin> open_fds s1 \<and> SysClose (fd cell) \<in> set (trace s1))"
    if force: "ops CHR ''f''"
  proof -
    from tcp_close_effect [OF h t0] obtain r1 s1 where
      cl: "tcp_close t s = Inr (r1, s1)" "heap s1 = heap s" "ztcp_head s1 = ztcp_head s"
        "ztcp_tail s1 = ztcp_tail s"
        "fd cell \<noteq> - 1 \<longrightarrow> fd cell \<notin> open_fds s1 \<and> SysClose (fd cell) \<in> set (trace s1)"
      by blast
    have "\<forall>q. links s1 q = links s q" using cl(2) by (simp add: links_def)
    from registry_inv_frame [OF inv this cl(3,4)] have inv1: "registry_inv s1 ps" .
    from zts_delete_total [OF inv1 tin] obtain s2 where del: "zts_delete t s1 = Some (Inr (0, s2))" ..
    from zts_delete_inv [OF inv1 del] have "registry_inv s2 (remove1 t ps)" by simp
    then have l2: "islist (heap s2) (ztcp_head s2) (remove1 t ps)" by (simp add: registry_inv_def)
    from zts_delete_frame [OF del] cl(5)
    have o: "fd cell \<noteq> - 1 \<longrightarrow> fd cell \<notin> open_fds s2 \<and> SysClose (fd cell) \<in> set (trace s2)" by simp
    have "bin_ztcp env nam (a0 # rest) ops s = Some (Inr (0, s2))"
      using force c f t0 d cl(1) del by (simp add: bin_ztcp_def ztcp_close_fd_def)
    with l2 o show ?thesis by blast
  qed
  from unforced forced l tin show ?thesis by blast
qed

text \<open>
  Claim C8 (with the force flag the session is closed and deleted) fails on the code
  for a session that is not the head of the list: \<^verbatim>\<open>zts_delete\<close> unlinks it and then
  frees the rewritten link instead of the session. With the registry \<open>[1, 2]\<close>, session
  2 carrying \<^verbatim>\<open>ZTCP_ZFTP\<close> on descriptor 4, the command \<^verbatim>\<open>ztcp -c -f 4\<close> returns status
  0, closes descriptor 4 and leaves the registry \<open>[1]\<close>, but the record at 2 is still
  allocated.
\<close>

theorem forced_close_leaves_record_allocated:
  "(case run_sockets [(1, 3, 0), (2, 4, 16)] init_state of
      Inr s \<Rightarrow>
        traverse s = Some (Inr [1, 2]) \<and>
        (case bin_ztcp example_env ''ztcp'' [''4''] (\<lambda>ch. ch = CHR ''c'' \<or> ch = CHR ''f'') s of
           Some (Inr (r, s1)) \<Rightarrow>
             r = 0 \<and> traverse s1 = Some (Inr [1]) \<and> 4 \<notin> open_fds s1 \<and> heap s1 2 \<noteq> None
         | other \<Rightarrow> False)
    | Inl e \<Rightarrow> False)"
  by (simp add: cmd_eval ex_eval registry_eval)

subsection \<open>Allocation failure in the open command\<close>

text \<open>
  Claim C6 (when the allocation fails the command reports it and returns 1 before any
  further use of the session) fails on the code where \<^verbatim>\<open>SO_OOBINLINE\<close> is defined:
  \<^verbatim>\<open>setsockopt(sess->fd, ...)\<close> stands before the test \<^verbatim>\<open>if(!sess)\<close>, so with
  \<^verbatim>\<open>zcalloc\<close> returning \<^verbatim>\<open>NULL\<close> the command dereferences \<^verbatim>\<open>NULL\<close>.
\<close>

theorem open_alloc_failure_null_deref:
  "bin_ztcp (example_env\<lparr>zcalloc_result := 0\<rparr>) ''ztcp'' [''localhost''] (\<lambda>ch. False)
     init_state = Some (Inl NullDeref)"
  by (simp add: cmd_eval ex_eval registry_eval)

lemma open_alloc_failure:
  assumes "\<not> ops CHR ''c''" "getipnodebyname env host = Some zh" "\<not> errflag s"
    "zcalloc_result env = 0"
  shows "bin_ztcp env nam (host # rest) ops s =
    (if have_SO_OOBINLINE env then Some (Inl NullDeref)
     else Some (Inr (1, emit (Zwarnnam nam ''unable to allocate a TCP session slot'' None 0) s)))"
  using assms by (simp add: bin_ztcp_def ztcp_open_def tcp_socket_def zts_alloc_def deref_def)

subsection \<open>The connect protocol\<close>

text \<open>
  Claim C9 as stated (the same candidate is retried while the failure is an interrupted
  call) fails on the code: the retry loop also tests \<^verbatim>\<open>!errflag\<close>. When the first call
  of \<^verbatim>\<open>connect\<close> is interrupted and the shell's error flag has been set meanwhile, the
  second call is made on the second candidate, not again on the first.
\<close>

theorem interrupted_with_errflag_advances:
  "(case bin_ztcp interrupted_env ''ztcp'' [''localhost''] (\<lambda>ch. False) init_state of
      Some (Inr (r, s)) \<Rightarrow>
        r = 0 \<and> map sin_addr (connect_calls (trace s)) = [[127, 0, 0, 1], [127, 0, 0, 2]]
    | other \<Rightarrow> False)"
  by (simp add: interrupted_env_def cmd_eval ex_eval registry_eval)

lemma connect_protocol_fresh:
  "connect_protocol nam True err (a # as) ocs sess zh port s =
   connect_protocol nam False err (a # as) ocs sess zh port
     (if h_length zh \<noteq> 4 then emit (Zwarnnam nam ''address length mismatch'' None 0) s else s)"
  by (cases ocs) simp_all

lemma connect_retry_protocol:
  "connect_protocol nam False err (a # as) ocs sess zh port s =
     (case connect_retry ocs sess a zh port s of
        None \<Rightarrow> None
      | Some (Inl e) \<Rightarrow> Some (Inl e)
      | Some (Inr (r, ocs1, s1)) \<Rightarrow>
          if r = 0 then Some (Inr (0, ocs1, s1))
          else connect_protocol nam True r as ocs1 sess zh port s1)"
proof (induction ocs arbitrary: err s)
  case Nil
  then show ?case by (simp split: option.splits sum.splits)
next
  case (Cons oc ocs)
  show ?case
  proof (cases "tcp_connect (Some oc) sess a zh port s")
    case None
    then show ?thesis by simp
  next
    case (Some res)
    show ?thesis
    proof (cases res)
      case (Inl e)
      with Some show ?thesis by simp
    next
      case (Inr p)
      obtain r s1 where p: "p = (r, s1)" by (cases p)
      with Some Inr Cons.IH [of r s1] show ?thesis by simp
    qed
  qed
qed

lemma connect_candidates_zero:
  "connect_candidates nam 0 addrs ocs sess zh port s = Some (Inr (0, ocs, s))"
  by (cases addrs) simp_all

lemma connect_candidates_protocol:
  "err \<noteq> 0 \<Longrightarrow>
   connect_candidates nam err addrs ocs sess zh port s =
   connect_protocol nam True err addrs ocs sess zh port s"
proof (induction addrs arbitrary: err ocs s)
  case Nil
  then show ?case by simp
next
  case (Cons a addrs)
  let ?s0 = "if h_length zh \<noteq> 4
             then emit (Zwarnnam nam ''address length mismatch'' None 0) s else s"
  have "connect_candidates nam err (a # addrs) ocs sess zh port s =
      (case connect_retry ocs sess a zh port ?s0 of
         None \<Rightarrow> None
       | Some (Inl e) \<Rightarrow> Some (Inl e)
       | Some (Inr (r, ocs1, s1)) \<Rightarrow>
           if r = 0 then Some (Inr (0, ocs1, s1))
           else connect_protocol nam True r addrs ocs1 sess zh port s1)"
    using Cons.prems Cons.IH
    by (auto simp: Let_def connect_candidates_zero split: option.splits sum.splits)
  also have "\<dots> = connect_protocol nam False err (a # addrs) ocs sess zh port ?s0"
    by (rule connect_retry_protocol [symmetric])
  also have "\<dots> = connect_protocol nam True err (a # addrs) ocs sess zh port s"
    by (rule connect_protocol_fresh [symmetric])
  finally show ?case .
qed

lemma emit_frame [simp]:
  "heap (emit e s) = heap s" "ztcp_head (emit e s) = ztcp_head s"
  "ztcp_tail (emit e s) = ztcp_tail s" "errno (emit e s) = errno s"
  "errflag (emit e s) = errflag s" "open_fds (emit e s) = open_fds s"
  by (simp_all add: emit_def)

lemma connect_protocol_frame:
  "connect_protocol nam fresh err addrs ocs sess zh port s = Some (Inr (r, ocs1, s3)) \<Longrightarrow>
   heap s sess \<noteq> None \<Longrightarrow>
   heap s3 sess \<noteq> None \<and> ztcp_head s3 = ztcp_head s \<and> ztcp_tail s3 = ztcp_tail s \<and>
   (\<forall>q. links s3 q = links s q)"
proof (induction ocs arbitrary: fresh err addrs s)
  case Nil
  then show ?case
    by (cases addrs) (auto simp: Let_def split: option.splits sum.splits)
next
  case (Cons oc ocs)
  show ?case
  proof (cases addrs)
    case Nil
    with Cons.prems show ?thesis by simp
  next
    case (Cons a as)
    define s0 where "s0 = (if fresh \<and> h_length zh \<noteq> 4
               then emit (Zwarnnam nam ''address length mismatch'' None 0) s else s)"
    from Cons.prems(1) Cons obtain r1 s1 where
      tc: "tcp_connect (Some oc) sess a zh port s0 = Some (Inr (r1, s1))"
      unfolding s0_def by (auto simp: Let_def split: option.splits sum.splits)
    have s0: "heap s0 = heap s" "ztcp_head s0 = ztcp_head s" "ztcp_tail s0 = ztcp_tail s"
      by (simp_all add: s0_def)
    from tcp_connect_frame [OF tc] obtain c pr where
      g: "heap s0 sess = Some c" "ztcp_head s1 = ztcp_head s0" "ztcp_tail s1 = ztcp_tail s0"
         "heap s1 = (heap s0)(sess \<mapsto> c\<lparr>peer := pr\<rparr>)"
      by blast
    from g(1,4) have "\<forall>q. links s1 q = links s0 q" by (simp add: links_def)
    with g s0
    have f: "heap s1 sess \<noteq> None" "ztcp_head s1 = ztcp_head s" "ztcp_tail s1 = ztcp_tail s"
      "\<forall>q. links s1 q = links s q"
      by (simp_all add: links_def)
    show ?thesis
    proof (cases "r1 = 0")
      case True
      with tc Cons.prems(1) Cons f show ?thesis by (simp add: Let_def s0_def)
    next
      case False
      show ?thesis
      proof (cases "errno s1 = EINTR \<and> \<not> errflag s1")
        case True
        with False tc Cons.prems(1) Cons
        have "connect_protocol nam False r1 addrs ocs sess zh port s1 = Some (Inr (r, ocs1, s3))"
          by (simp add: Let_def s0_def)
        from Cons.IH [OF this f(1)] f show ?thesis by simp
      next
        case nr: False
        with False tc Cons.prems(1) Cons
        have "connect_protocol nam True r1 as ocs sess zh port s1 = Some (Inr (r, ocs1, s3))"
          by (simp add: Let_def s0_def)
        from Cons.IH [OF this f(1)] f show ?thesis by simp
      qed
    qed
  qed
qed

lemma connect_protocol_consumed:
  "connect_protocol nam fresh err addrs ocs sess zh port s = Some (Inr (r, ocs1, s3)) \<Longrightarrow>
   \<exists>consumed. ocs = consumed @ ocs1 \<and>
     (if consumed = [] then r = err \<and> errno s3 = errno s
      else r = c_ret (last consumed) \<and> (r \<noteq> 0 \<longrightarrow> errno s3 = c_errno (last consumed)))"
proof (induction ocs arbitrary: fresh err addrs s)
  case Nil
  then show ?case
    by (cases addrs) (auto simp: Let_def split: option.splits sum.splits)
next
  case (Cons oc ocs)
  show ?case
  proof (cases addrs)
    case Nil
    with Cons.prems show ?thesis by simp
  next
    case (Cons a as)
    define s0 where "s0 = (if fresh \<and> h_length zh \<noteq> 4
               then emit (Zwarnnam nam ''address length mismatch'' None 0) s else s)"
    from Cons.prems(1) Cons obtain r1 s1 where
      tc: "tcp_connect (Some oc) sess a zh port s0 = Some (Inr (r1, s1))"
      unfolding s0_def by (auto simp: Let_def split: option.splits sum.splits)
    from tcp_connect_frame [OF tc]
    have f: "r1 = c_ret oc" "errno s1 = (if c_ret oc \<noteq> 0 then c_errno oc else errno s0)"
      by auto
    show ?thesis
    proof (cases "r1 = 0")
      case True
      with tc Cons.prems(1) Cons have "r = 0" "ocs1 = ocs" by (simp_all add: Let_def s0_def)
      with True f have "oc # ocs = [oc] @ ocs1 \<and> r = c_ret (last [oc]) \<and> r = 0" by simp
      then show ?thesis by (intro exI [of _ "[oc]"]) simp
    next
      case False
      have "\<exists>fr ad. connect_protocol nam fr r1 ad ocs sess zh port s1 = Some (Inr (r, ocs1, s3))"
        using False tc Cons.prems(1) Cons
        by (cases "errno s1 = EINTR \<and> \<not> errflag s1") (auto simp: Let_def s0_def)
      then obtain fr ad where
        "connect_protocol nam fr r1 ad ocs sess zh port s1 = Some (Inr (r, ocs1, s3))" by blast
      from Cons.IH [OF this] obtain cons where
        c: "ocs = cons @ ocs1"
          "if cons = [] then r = r1 \<and> errno s3 = errno s1
           else r = c_ret (last cons) \<and> (r \<noteq> 0 \<longrightarrow> errno s3 = c_errno (last cons))"
        by blast
      show ?thesis
      proof (cases "cons = []")
        case True
        with c f False have "oc # ocs = [oc] @ ocs1 \<and> r = c_ret (last [oc]) \<and>
            (r \<noteq> 0 \<longrightarrow> errno s3 = c_errno (last [oc]))" by simp
        then show ?thesis by (intro exI [of _ "[oc]"]) simp
      next
        case ne: False
        with c have "oc # ocs = (oc # cons) @ ocs1 \<and> r = c_ret (last (oc # cons)) \<and>
            (r \<noteq> 0 \<longrightarrow> errno s3 = c_errno (last (oc # cons)))" by simp
        then show ?thesis by (intro exI [of _ "oc # cons"]) simp
      qed
    qed
  qed
qed

lemma os_setsockopt_frame [simp]:
  "heap (os_setsockopt d s) = heap s" "ztcp_head (os_setsockopt d s) = ztcp_head s"
  "ztcp_tail (os_setsockopt d s) = ztcp_tail s" "errflag (os_setsockopt d s) = errflag s"
  by (simp_all add: os_setsockopt_def emit_def)

lemma tcp_socket_session:
  assumes "tcp_socket zc res domain type protocol fl s = Inr (sess, s1)" and "sess \<noteq> 0"
  shows "\<exists>c. heap s1 sess = Some c \<and> fd c = fst res"
  using tcp_socket_unfold [OF assms(1)] assms(2) by auto

text \<open>
  Claim C9, amended. Let the open command reach the connect loop: the host resolves,
  the error flag is clear, the session \<open>sess\<close> is allocated and its socket created
  (\<open>s1\<close> is the state after \<^verbatim>\<open>tcp_socket\<close>, \<open>s2\<close> the state after \<^verbatim>\<open>setsockopt\<close>).
  Then the command behaves as \<open>connect_protocol\<close> describes: candidates in list order;
  after an interrupted call with the error flag clear the same candidate is tried
  again; after any other failure (an interrupted call with the error flag set too) the
  next candidate is tried; the first success stops the loop. The command returns
  status 0. When the protocol ends in failure it warns \<^verbatim>\<open>connection failed\<close> with the
  \<^verbatim>\<open>errno\<close> of the time, which is the one set by the last call of \<^verbatim>\<open>connect\<close> made;
  the session record is still allocated and the registry (head, tail, links) is as
  \<^verbatim>\<open>tcp_socket\<close> left it: the session is not deleted.
\<close>

theorem open_connect_protocol:
  assumes nc: "\<not> ops CHR ''c''"
    and res: "getipnodebyname env desthost = Some zh" and ef: "\<not> errflag s"
    and sock: "tcp_socket (zcalloc_result env) (socket_result env) PF_INET SOCK_STREAM 0 0 s =
                 Inr (sess, s1)"
    and sess: "sess \<noteq> 0" and fdok: "0 \<le> fst (socket_result env)"
    and s2: "s2 = (if have_SO_OOBINLINE env then os_setsockopt (fst (socket_result env)) s1 else s1)"
    and port: "destport = (case rest of [] \<Rightarrow> 23 | a1 # rest1 \<Rightarrow> atoi a1)"
  shows "bin_ztcp env nam (desthost # rest) ops s =
           (case connect_protocol nam True 1 (h_addr_list zh) (connect_results env) sess zh
                   (htons destport) s2 of
              None \<Rightarrow> None
            | Some (Inl e) \<Rightarrow> Some (Inl e)
            | Some (Inr (err, ocs1, s3)) \<Rightarrow>
                Some (Inr (0,
                  if err \<noteq> 0
                  then emit (Zwarnnam nam ''connection failed: %e'' None (errno s3)) s3
                  else emit (OpenedLine desthost destport (fst (socket_result env))) s3))) \<and>
         (\<forall>err ocs1 s3.
            connect_protocol nam True 1 (h_addr_list zh) (connect_results env) sess zh
              (htons destport) s2 = Some (Inr (err, ocs1, s3)) \<longrightarrow>
            heap s3 sess \<noteq> None \<and> ztcp_head s3 = ztcp_head s1 \<and> ztcp_tail s3 = ztcp_tail s1 \<and>
            (\<forall>q. links s3 q = links s1 q) \<and>
            (\<exists>consumed. connect_results env = consumed @ ocs1 \<and>
               (consumed \<noteq> [] \<longrightarrow>
                  err = c_ret (last consumed) \<and>
                  (err \<noteq> 0 \<longrightarrow> errno s3 = c_errno (last consumed)))))"
proof -
  from tcp_socket_session [OF sock sess] obtain c where c: "heap s1 sess = Some c"
    "fd c = fst (socket_result env)" by blast
  have d1: "deref s1 sess = Inr c" using c sess by (simp add: deref_Inr)
  have d2: "deref s2 sess = Inr c" using c sess s2 by (simp add: deref_Inr)
  have step: "(if have_SO_OOBINLINE env
        then (case deref s1 sess of Inl e \<Rightarrow> Inl e | Inr c \<Rightarrow> Inr (os_setsockopt (fd c) s1))
        else Inr s1) = Inr s2"
    using d1 c(2) s2 by simp
  have cc: "connect_candidates nam 1 (h_addr_list zh) (connect_results env) sess zh
        (htons destport) s2 =
      connect_protocol nam True 1 (h_addr_list zh) (connect_results env) sess zh
        (htons destport) s2"
    by (rule connect_candidates_protocol) simp
  have "bin_ztcp env nam (desthost # rest) ops s = ztcp_open env nam desthost destport s"
    using nc port by (simp add: bin_ztcp_def)
  also have "\<dots> =
      (case connect_candidates nam 1 (h_addr_list zh) (connect_results env) sess zh
              (htons destport) s2 of
         None \<Rightarrow> None
       | Some (Inl e) \<Rightarrow> Some (Inl e)
       | Some (Inr (err, ocs1, s3)) \<Rightarrow>
           if err \<noteq> 0
           then Some (Inr (0, emit (Zwarnnam nam ''connection failed: %e'' None (errno s3)) s3))
           else Some (Inr (0, emit (OpenedLine desthost destport (fd c)) s3)))"
    unfolding ztcp_open_def using res ef sock sess step d2 c(2) fdok by simp
  finally have part1: "bin_ztcp env nam (desthost # rest) ops s =
           (case connect_protocol nam True 1 (h_addr_list zh) (connect_results env) sess zh
                   (htons destport) s2 of
              None \<Rightarrow> None
            | Some (Inl e) \<Rightarrow> Some (Inl e)
            | Some (Inr (err, ocs1, s3)) \<Rightarrow>
                Some (Inr (0,
                  if err \<noteq> 0
                  then emit (Zwarnnam nam ''connection failed: %e'' None (errno s3)) s3
                  else emit (OpenedLine desthost destport (fst (socket_result env))) s3)))"
    unfolding cc c(2) by (auto split: option.splits sum.splits)
  have part2: "heap s3 sess \<noteq> None \<and> ztcp_head s3 = ztcp_head s1 \<and> ztcp_tail s3 = ztcp_tail s1 \<and>
            (\<forall>q. links s3 q = links s1 q) \<and>
            (\<exists>consumed. connect_results env = consumed @ ocs1 \<and>
               (consumed \<noteq> [] \<longrightarrow>
                  err = c_ret (last consumed) \<and>
                  (err \<noteq> 0 \<longrightarrow> errno s3 = c_errno (last consumed))))"
    if p: "connect_protocol nam True 1 (h_addr_list zh) (connect_results env) sess zh
              (htons destport) s2 = Some (Inr (err, ocs1, s3))" for err ocs1 s3
  proof -
    from c have h2: "heap s2 sess \<noteq> None" using s2 by simp
    from connect_protocol_frame [OF p h2] s2
    have fr: "heap s3 sess \<noteq> None \<and> ztcp_head s3 = ztcp_head s1 \<and> ztcp_tail s3 = ztcp_tail s1 \<and>
      (\<forall>q. links s3 q = links s1 q)"
      by (simp add: links_def)
    from connect_protocol_consumed [OF p] obtain consumed where
      k: "connect_results env = consumed @ ocs1"
         "if consumed = [] then err = 1 \<and> errno s3 = errno s2
          else err = c_ret (last consumed) \<and> (err \<noteq> 0 \<longrightarrow> errno s3 = c_errno (last consumed))"
      by blast
    then have "connect_results env = consumed @ ocs1 \<and>
               (consumed \<noteq> [] \<longrightarrow>
                  err = c_ret (last consumed) \<and>
                  (err \<noteq> 0 \<longrightarrow> errno s3 = c_errno (last consumed)))"
      by (cases "consumed = []") simp_all
    then have "\<exists>consumed. connect_results env = consumed @ ocs1 \<and>
               (consumed \<noteq> [] \<longrightarrow>
                  err = c_ret (last consumed) \<and>
                  (err \<noteq> 0 \<longrightarrow> errno s3 = c_errno (last consumed)))" ..
    with fr show ?thesis by blast
  qed
  from part1 part2 show ?thesis by blast
qed

text \<open>
  The theorem at the second run: the calls are on the first candidate, the first
  again, then the second; the warning carries the \<^verbatim>\<open>errno\<close> 110 of the last call.
\<close>

theorem open_connect_protocol_witness:
  "\<exists>s3. bin_ztcp refused_env ''ztcp'' [''localhost''] (\<lambda>ch. False) init_state =
           Some (Inr (0, emit (Zwarnnam ''ztcp'' ''connection failed: %e'' None 110) s3)) \<and>
        heap s3 1 \<noteq> None \<and> ztcp_head s3 = 1 \<and>
        map sin_addr (connect_calls (trace s3)) = [[127, 0, 0, 1], [127, 0, 0, 1], [127, 0, 0, 2]]"
proof -
  let ?s2 = "os_setsockopt 3 (session_state 0)"
  have res: "getipnodebyname refused_env ''localhost'' = Some example_host"
    by (simp add: refused_env_def example_env_def)
  have sock: "tcp_socket (zcalloc_result refused_env) (socket_result refused_env)
      PF_INET SOCK_STREAM 0 0 init_state = Inr (1, session_state 0)"
    by (simp add: refused_env_def ex_eval registry_eval)
  have s2: "?s2 = (if have_SO_OOBINLINE refused_env
      then os_setsockopt (fst (socket_result refused_env)) (session_state 0) else session_state 0)"
    by (simp add: refused_env_def example_env_def)
  have ef: "\<not> errflag init_state" by (simp add: init_state_def)
  have nc: "\<not> False" by simp
  have sess: "(1::nat) \<noteq> 0" by simp
  have fdok: "0 \<le> fst (socket_result refused_env)"
    by (simp add: refused_env_def example_env_def)
  have port: "(23::int) = (case ([]::string list) of [] \<Rightarrow> 23 | a1 # rest1 \<Rightarrow> atoi a1)"
    by simp
  have hd1: "ztcp_head (session_state 0) = 1" by (simp add: ex_eval registry_eval)
  obtain s3 where p: "connect_protocol ''ztcp'' True 1 (h_addr_list example_host)
      (connect_results refused_env) 1 example_host (htons 23) ?s2 = Some (Inr (- 1, [], s3))"
    and e: "errno s3 = 110"
    and k: "map sin_addr (connect_calls (trace s3)) = [[127, 0, 0, 1], [127, 0, 0, 1], [127, 0, 0, 2]]"
    by (simp add: refused_env_def cmd_eval ex_eval registry_eval)
  note t = open_connect_protocol [where ops = "\<lambda>ch. False" and env = refused_env
      and desthost = "''localhost''" and zh = example_host and s = init_state and sess = 1
      and ?s1.0 = "session_state 0" and ?s2.0 = ?s2 and destport = 23 and rest = "[]"
      and nam = "''ztcp''", OF nc res ef sock sess fdok s2 port]
  have t': "bin_ztcp refused_env ''ztcp'' [''localhost''] (\<lambda>ch. False) init_state =
      Some (Inr (0, emit (Zwarnnam ''ztcp'' ''connection failed: %e'' None 110) s3))"
    using t [THEN conjunct1] p e by (simp add: refused_env_def example_env_def)
  have u: "heap s3 1 \<noteq> None \<and> ztcp_head s3 = 1"
    using t [THEN conjunct2, rule_format, OF p] hd1 by simp
  show ?thesis
    by (rule exI [of _ s3]) (intro conjI t' k u [THEN conjunct1] u [THEN conjunct2])
qed

end
